theory Spec2Isabelle
  imports Complex_Main
begin

section \<open>The Google Maps service layer of newBuzo (src/lib/googleMaps.ts)\<close>

text \<open>
  A shallow embedding of the place discovery layer: the pure helpers
  (\<open>calculateDistance\<close>, \<open>mapCuisineType\<close>, \<open>getBestRestaurantImage\<close>,
  \<open>getPlacePhotoUrl\<close>), the queries that try the new Place API and fall back to the
  legacy PlacesService, the photo enrichment, the geocoder calls, and the location-search
  and reverse-geocoding hooks that call them.

  Conventions of the embedding.
  \<^item> A JavaScript \<open>number\<close> is a \<open>real\<close>, and arithmetic on it is exact, except in
    \<open>calculateDistance\<close>: there every operation is rounded to a double and the result
    can be NaN.
  \<^item> An optional or possibly undefined property is an \<open>option\<close>; \<open>None\<close> is
    \<open>undefined\<close>.
  \<^item> A string is a HOL \<open>string\<close>, read as a sequence of code units below 256.
  \<^item> A promise is the way it ends: \<open>Resolved v\<close> when it resolves with \<open>v\<close>,
    \<open>Rejected (Error msg)\<close> when it rejects with \<open>new Error(msg)\<close>, \<open>Pending\<close> when it
    never settles.
  \<^item> The SDK on \<open>window.google\<close> is not part of the repository. Its behaviour is a
    parameter: a record of response functions, one per entry point, each taken to
    answer. Every operation returns, next to its result, the list of SDK entry points
    it invoked, in order.
\<close>

subsection \<open>Data model (src/types)\<close>

record LatLng =
  lat :: real
  lng :: real

text \<open>\<open>UserLocation\<close> also has an optional \<open>address\<close>, which this module never reads.\<close>

type_synonym UserLocation = LatLng

record PhotoAttribution =
  displayName :: "string option"
  uri :: "string option"
  photoUri :: "string option"

text \<open>
  What \<open>cuisineMap[type]\<close> can yield besides \<open>undefined\<close>: a label of the table, or
  the member of \<open>Object.prototype\<close> of that name (a function or an object, never a
  string).
\<close>

datatype cuisine_value = Label string | PrototypeMember string

text \<open>The result of double arithmetic that can leave the reals.\<close>

datatype js_number = Num real | NaN

text \<open>
  \<open>Restaurant\<close>. The source types \<open>cuisine\<close> as a string and \<open>distance\<close> as a number; at
  run time they are whatever \<open>mapCuisineType\<close> and \<open>calculateDistance\<close> return.
\<close>

record Restaurant =
  id_r :: string
  name :: string
  rating :: real
  address :: string
  coordinates :: LatLng
  cuisine :: cuisine_value
  priceLevel :: real
  image_r :: string
  distance :: js_number
  photoAttributions :: "PhotoAttribution list option"

datatype error = Error string

datatype 'a settled = Resolved 'a | Rejected error | Pending

text \<open>
  A photo object of any of the shapes the module handles: the new API's photos carry
  \<open>name\<close> (here \<open>photo_name\<close>), \<open>widthPx\<close>, \<open>heightPx\<close> and
  \<open>authorAttributions\<close>; the legacy API's photos \<open>photo_reference\<close>, \<open>width\<close> and
  \<open>height\<close>; the photos of \<open>RestaurantDetails\<close> those three and \<open>attributions\<close>.
  The fields \<open>id\<close> and \<open>image\<close> of \<open>Restaurant\<close> are \<open>id_r\<close> and \<open>image_r\<close> here.
\<close>

record Photo =
  photo_reference :: "string option"
  photo_name :: "string option"
  height :: "real option"
  width :: "real option"
  heightPx :: "real option"
  widthPx :: "real option"
  authorAttributions :: "PhotoAttribution list option"
  attributions :: "PhotoAttribution list option"

subsection \<open>JavaScript operators used by the module\<close>

text \<open>\<open>a || b\<close> on optional numbers and strings: \<open>0\<close>, \<open>""\<close> and \<open>undefined\<close> are falsy.\<close>

definition truthy_num :: "real option \<Rightarrow> bool" where
  "truthy_num v = (case v of None \<Rightarrow> False | Some x \<Rightarrow> x \<noteq> 0)"

definition truthy_str :: "string option \<Rightarrow> bool" where
  "truthy_str v = (case v of None \<Rightarrow> False | Some s \<Rightarrow> s \<noteq> [])"

definition or_num :: "real option \<Rightarrow> real \<Rightarrow> real" where
  "or_num v d = (if truthy_num v then the v else d)"

definition or_str :: "string option \<Rightarrow> string \<Rightarrow> string" where
  "or_str v d = (if truthy_str v then the v else d)"

definition or_opt_str :: "string option \<Rightarrow> string option \<Rightarrow> string option" where
  "or_opt_str v w = (if truthy_str v then v else w)"

definition or_opt_num :: "real option \<Rightarrow> real option \<Rightarrow> real option" where
  "or_opt_num v w = (if truthy_num v then v else w)"

text \<open>
  \<open>String.prototype.trim\<close>: white space and line terminators are removed at both ends.
  Below 256 these are TAB, LF, VT, FF, CR, SPACE and NBSP.
\<close>

definition is_js_space :: "char \<Rightarrow> bool" where
  "is_js_space c = (of_char c \<in> {9, 10, 11, 12, 13, 32, 160 :: nat})"

definition trim :: "string \<Rightarrow> string" where
  "trim s = rev (dropWhile is_js_space (rev (dropWhile is_js_space s)))"

subsection \<open>Double arithmetic\<close>

text \<open>
  Rounding to the nearest double, ties to even, for numbers in the normal range
  (\<open>2^-1022 \<le> \<bar>x\<bar> < 2^1024\<close>): \<open>fl_at e x\<close> rounds \<open>x\<close> to a multiple of \<open>2^(e - 52)\<close>,
  and \<open>e\<close> is the binary exponent of \<open>x\<close>.
\<close>

definition round_even :: "real \<Rightarrow> int" where
  "round_even y =
     (let f = \<lfloor>y\<rfloor>
      in if y - of_int f < 1 / 2 then f
         else if 1 / 2 < y - of_int f then f + 1
         else if even f then f else f + 1)"

definition fl_at :: "int \<Rightarrow> real \<Rightarrow> real" where
  "fl_at e x = of_int (round_even (x * 2 powi (52 - e))) * 2 powi (e - 52)"

definition fl :: "real \<Rightarrow> real" where
  "fl x = (if x = 0 then 0 else fl_at \<lfloor>log 2 \<bar>x\<bar>\<rfloor> x)"

text \<open>\<open>Math.PI\<close>, the double nearest to \<open>\<pi>\<close>.\<close>

definition Math_PI :: real where
  "Math_PI = 884279719003555 / 2 ^ 48"

text \<open>
  \<open>Math.sin\<close>, \<open>Math.cos\<close> and \<open>Math.atan2\<close> on doubles: ECMAScript leaves their values
  to the implementation, so they are parameters. (\<open>Math.sqrt\<close> is the correctly rounded
  square root, and NaN below zero.)
\<close>

record Math =
  Math_sin :: "real \<Rightarrow> real"
  Math_cos :: "real \<Rightarrow> real"
  Math_atan2 :: "real \<Rightarrow> real \<Rightarrow> real"

text \<open>\<open>x === y\<close> on numbers: NaN equals nothing, itself included.\<close>

definition strict_equal :: "js_number \<Rightarrow> js_number \<Rightarrow> bool" where
  "strict_equal x y = (case (x, y) of (Num a, Num b) \<Rightarrow> a = b | _ \<Rightarrow> False)"

text \<open>The arc tangent of two real arguments.\<close>

definition atan2 :: "real \<Rightarrow> real \<Rightarrow> real" where
  "atan2 y x =
     (if 0 < x then arctan (y / x)
      else if x < 0 then (if 0 \<le> y then arctan (y / x) + pi else arctan (y / x) - pi)
      else if 0 < y then pi / 2
      else if y < 0 then - (pi / 2)
      else 0)"

subsection \<open>Distance and cuisine classification\<close>

text \<open>
  The value \<open>a\<close> of \<open>calculateDistance\<close>, every operation rounded, in the order in which
  the source evaluates them. The coordinates are the doubles that the caller passes.
\<close>

definition haversine_a :: "Math \<Rightarrow> real \<Rightarrow> real \<Rightarrow> real \<Rightarrow> real \<Rightarrow> real" where
  "haversine_a M lat1 lng1 lat2 lng2 =
     (let dLat = fl (fl (lat2 - lat1) * fl (Math_PI / 180));
          dLng = fl (fl (lng2 - lng1) * fl (Math_PI / 180))
      in fl (fl (Math_sin M (fl (dLat / 2)) * Math_sin M (fl (dLat / 2))) +
             fl (fl (fl (Math_cos M (fl (lat1 * fl (Math_PI / 180))) *
                         Math_cos M (fl (lat2 * fl (Math_PI / 180)))) *
                     Math_sin M (fl (dLng / 2))) *
                 Math_sin M (fl (dLng / 2)))))"

text \<open>
  \<open>Math.sqrt(a)\<close> or \<open>Math.sqrt(1 - a)\<close> is NaN when its argument is below zero, and
  then so are \<open>Math.atan2\<close>, \<open>c\<close> and \<open>R * c\<close>.
\<close>

definition calculateDistance :: "Math \<Rightarrow> real \<Rightarrow> real \<Rightarrow> real \<Rightarrow> real \<Rightarrow> js_number" where
  "calculateDistance M lat1 lng1 lat2 lng2 =
     (let R = 6371;
          a = haversine_a M lat1 lng1 lat2 lng2
      in if a < 0 \<or> fl (1 - a) < 0 then NaN
         else
           let c = fl (2 * Math_atan2 M (fl (sqrt a)) (fl (sqrt (fl (1 - a)))))
           in Num (fl (R * c)))"

text \<open>The own properties of the object literal \<open>cuisineMap\<close>, in source order.\<close>

definition cuisineMap :: "(string \<times> string) list" where
  "cuisineMap =
     [(''restaurant'', ''Restaurant''),
      (''food'', ''Food''),
      (''meal_takeaway'', ''Takeaway''),
      (''meal_delivery'', ''Delivery''),
      (''cafe'', ''Cafe''),
      (''bar'', ''Bar''),
      (''bakery'', ''Bakery''),
      (''chinese_restaurant'', ''Chinese''),
      (''japanese_restaurant'', ''Japanese''),
      (''thai_restaurant'', ''Thai''),
      (''italian_restaurant'', ''Italian''),
      (''mexican_restaurant'', ''Mexican''),
      (''indian_restaurant'', ''Indian''),
      (''french_restaurant'', ''French''),
      (''american_restaurant'', ''American''),
      (''steakhouse'', ''Steakhouse'')]"

text \<open>
  The object literal inherits from \<open>Object.prototype\<close>, whose members ECMAScript fixes:
  \<open>cuisineMap[type]\<close> finds them when \<open>type\<close> is no own key.
\<close>

definition object_prototype_members :: "string list" where
  "object_prototype_members =
     [''constructor'', ''hasOwnProperty'', ''isPrototypeOf'', ''propertyIsEnumerable'',
      ''toLocaleString'', ''toString'', ''valueOf'', ''__proto__'', ''__defineGetter__'',
      ''__defineSetter__'', ''__lookupGetter__'', ''__lookupSetter__'']"

definition cuisineMap_get :: "string \<Rightarrow> cuisine_value option" where
  "cuisineMap_get type =
     (case map_of cuisineMap type of
        Some label \<Rightarrow> Some (Label label)
      | None \<Rightarrow>
          if type \<in> set object_prototype_members then Some (PrototypeMember type) else None)"

text \<open>A non-empty string is truthy, and so is every function and object.\<close>

definition truthy_value :: "cuisine_value option \<Rightarrow> bool" where
  "truthy_value v =
     (case v of
        None \<Rightarrow> False
      | Some (Label s) \<Rightarrow> s \<noteq> []
      | Some (PrototypeMember m) \<Rightarrow> True)"

fun mapCuisineType :: "string list \<Rightarrow> cuisine_value" where
  "mapCuisineType [] = Label ''Restaurant''"
| "mapCuisineType (t # ts) =
     (if truthy_value (cuisineMap_get t) then the (cuisineMap_get t)
      else mapCuisineType ts)"

text \<open>The two groups of keys that the comment in \<open>cuisineMap\<close> separates.\<close>

definition generic_tags :: "string list" where
  "generic_tags = map fst (take 7 cuisineMap)"

definition specific_tags :: "string list" where
  "specific_tags = map fst (drop 7 cuisineMap)"

subsection \<open>Photo selection\<close>

definition photoWidth :: "Photo \<Rightarrow> real" where
  "photoWidth p = or_num (or_opt_num (width p) (widthPx p)) 0"

definition photoHeight :: "Photo \<Rightarrow> real" where
  "photoHeight p = or_num (or_opt_num (height p) (heightPx p)) 0"

definition photoSize :: "Photo \<Rightarrow> real" where
  "photoSize p = photoWidth p * photoHeight p"

text \<open>
  The body of the \<open>for (const photo of photos)\<close> loop of \<open>getBestRestaurantImage\<close>:
  the first argument is \<open>bestPhoto\<close>, the second the photos not yet visited.
\<close>

fun bestPhoto_scan :: "Photo \<Rightarrow> Photo list \<Rightarrow> Photo" where
  "bestPhoto_scan best [] = best"
| "bestPhoto_scan best (photo # rest) =
     (let currentWidth = photoWidth photo;
          currentHeight = photoHeight photo;
          bestWidth = photoWidth best;
          bestHeight = photoHeight best
      in if currentWidth = 0 \<or> currentHeight = 0 then bestPhoto_scan best rest
         else
           let currentRatio = currentWidth / currentHeight;
               currentSize = currentWidth * currentHeight;
               bestSize = bestWidth * bestHeight
           in if currentRatio \<ge> 1.2 \<and> currentRatio \<le> 2.0 \<and> currentSize > bestSize
              then bestPhoto_scan photo rest
              else bestPhoto_scan best rest)"

text \<open>
  \<open>bestPhoto\<close> after the loop, under the specification's name for this selection:
  \<open>photos[0]\<close> is the first \<open>bestPhoto\<close> and the loop visits every photo,
  \<open>photos[0]\<close> included. \<open>None\<close> is the early return on a missing or empty array.
\<close>

definition selectBestPhoto :: "Photo list option \<Rightarrow> Photo option" where
  "selectBestPhoto photos =
     (case photos of
        None \<Rightarrow> None
      | Some [] \<Rightarrow> None
      | Some (p # ps) \<Rightarrow> Some (bestPhoto_scan p (p # ps)))"

text \<open>
  The vocabulary of the selection: a landscape photo passes the loop's ratio test and has
  no zero dimension; a portrait photo has a finite ratio below 1.2.
\<close>

definition landscape :: "Photo \<Rightarrow> bool" where
  "landscape p =
     (photoWidth p \<noteq> 0 \<and> photoHeight p \<noteq> 0 \<and>
      photoWidth p / photoHeight p \<ge> 1.2 \<and> photoWidth p / photoHeight p \<le> 2.0)"

definition portrait :: "Photo \<Rightarrow> bool" where
  "portrait p = (photoHeight p \<noteq> 0 \<and> photoWidth p / photoHeight p < 1.2)"


subsection \<open>Provider shapes\<close>

text \<open>
  A place of the new Place API, as the module probes it: \<open>np_Dg_displayName\<close> is
  \<open>place.Dg.displayName\<close> and \<open>np_displayName_text\<close> is \<open>place.displayName.text\<close>, each
  \<open>None\<close> unless the path exists and holds a string. \<open>np_location\<close> is the point that
  \<open>place.location.lat()\<close> and \<open>place.location.lng()\<close> return; it is \<open>None\<close> when
  \<open>place.location\<close> is undefined, and the calls then throw a TypeError. The requested
  field \<open>id\<close> is taken to be present.
\<close>

record PlaceNew =
  np_Dg_displayName :: "string option"
  np_displayName_text :: "string option"
  np_name :: "string option"
  np_title :: "string option"
  np_place_id :: "string option"
  np_id :: string
  np_rating :: "real option"
  np_formattedAddress :: "string option"
  np_vicinity :: "string option"
  np_location :: "LatLng option"
  np_types :: "string list option"
  np_priceLevel :: "real option"
  np_photos :: "Photo list option"

record OpeningHours =
  open_now :: bool
  weekday_text :: "string list option"

text \<open>\<open>GooglePlaceResult\<close>: a place of the legacy PlacesService.\<close>

record GooglePlaceResult =
  gp_place_id :: string
  gp_name :: string
  gp_vicinity :: "string option"
  gp_formatted_address :: "string option"
  gp_location :: LatLng
  gp_rating :: "real option"
  gp_price_level :: "real option"
  gp_types :: "string list"
  gp_photos :: "Photo list option"
  gp_opening_hours :: "OpeningHours option"
  gp_formatted_phone_number :: "string option"
  gp_website :: "string option"

text \<open>
  The object that \<open>new Place(request)\<close> is after \<open>fetchFields()\<close>: its \<open>Dg\<close> member, when
  present, and its own \<open>place_id\<close> and \<open>id\<close>.
\<close>

record DgDetails =
  dg_id :: "string option"
  dg_displayName :: "string option"
  dg_formattedAddress :: "string option"
  dg_nationalPhoneNumber :: "string option"
  dg_websiteUri :: "string option"
  dg_websiteURI :: "string option"
  dg_rating :: "real option"
  dg_photos :: "Photo list option"
  dg_currentOpeningHours :: "OpeningHours option"
  dg_location :: "LatLng option"

record FetchedPlace =
  fp_Dg :: "DgDetails option"
  fp_place_id :: "string option"
  fp_id :: "string option"

record RestaurantDetails =
  d_place_id :: string
  d_name :: string
  d_formatted_address :: string
  d_formatted_phone_number :: "string option"
  d_website :: "string option"
  d_rating :: real
  d_photos :: "Photo list option"
  d_opening_hours :: "OpeningHours option"
  d_location :: LatLng

text \<open>
  A result of \<open>Geocoder.geocode\<close>; \<open>gr_address_components\<close> lists the \<open>long_name\<close> of
  each address component.
\<close>

record GeocoderResult =
  gr_place_id :: string
  gr_address_components :: "string option list"
  gr_formatted_address :: string
  gr_location :: LatLng
  gr_types :: "string list option"

record LocationSearchResult =
  ls_place_id :: string
  ls_name :: string
  ls_formatted_address :: string
  ls_location :: LatLng
  ls_types :: "string list"

subsection \<open>The environment: configuration, platform and SDK\<close>

text \<open>The SDK entry points the module invokes, with the request each one is given.\<close>

datatype sdk_call =
    InitializeService
  | PlaceSearchNearby LatLng real
  | NearbySearch LatLng real string
  | PlaceFetchFields string
  | GetDetails string
  | PlaceSearchByText string "(LatLng \<times> real) option"
  | TextSearch string "LatLng option" "real option"
  | GeocodeLocation LatLng
  | GeocodeAddress string

text \<open>
  \<^item> \<open>GOOGLE_MAPS_API_KEY\<close>: the environment variable.
  \<^item> \<open>URL_href\<close>: the platform's \<open>URL\<close> class; \<open>URL_href base params\<close> is
    \<open>url.toString()\<close> after \<open>new URL(base)\<close> and one \<open>searchParams.append\<close> per pair.
  \<^item> \<open>math\<close>: the platform's \<open>Math\<close>.
  \<^item> \<open>sdk_loaded\<close>: whether \<open>window.google\<close> and \<open>window.googleMapsLoaded\<close> are set when
    the operation starts.
  \<^item> \<open>script_tag_present\<close>: whether the document already holds a script element whose
    \<open>src\<close> contains \<open>maps.googleapis.com\<close>.
  \<^item> \<open>script_event\<close>: what follows while the module waits for the script. The page's
    callback \<open>initGoogleMaps\<close>, which is not part of the module, dispatches
    \<open>google-maps-loaded\<close>; or the script element fires \<open>onerror\<close>; or neither ever
    happens.
  \<^item> \<open>loaded_after_wait\<close>: whether \<open>window.google\<close> and \<open>window.googleMapsLoaded\<close> are
    set when a \<open>waitForGoogleMaps()\<close> that had to wait has settled.
  \<^item> \<open>Place_searchNearby\<close>, \<open>Place_searchByText\<close>, \<open>Place_fetchFields\<close>: the new API.
    \<open>None\<close> when the guard \<open>Place && Place.searchNearby\<close> (and so on) is falsy; otherwise
    the call either throws (\<open>Inl\<close>) or returns (\<open>Inr\<close>). The lists are
    \<open>response.places\<close>.
  \<^item> \<open>nearbySearch\<close>, \<open>textSearch\<close>, \<open>getDetails\<close>, \<open>geocode_location\<close>,
    \<open>geocode_address\<close>: the arguments that the legacy service and the geocoder pass to
    the callback, the status last.
\<close>

datatype script_event = LoadedEvent | ErrorEvent | NoEvent

record Env =
  GOOGLE_MAPS_API_KEY :: "string option"
  URL_href :: "string \<Rightarrow> (string \<times> string) list \<Rightarrow> string"
  math :: Math
  sdk_loaded :: bool
  script_tag_present :: bool
  script_event :: script_event
  loaded_after_wait :: bool
  Place_searchNearby :: "(LatLng \<Rightarrow> real \<Rightarrow> string + PlaceNew list option) option"
  nearbySearch :: "LatLng \<Rightarrow> real \<Rightarrow> string \<Rightarrow> GooglePlaceResult list \<times> string"
  Place_fetchFields :: "(string \<Rightarrow> string + FetchedPlace) option"
  getDetails :: "string \<Rightarrow> GooglePlaceResult \<times> string"
  Place_searchByText :: "(string \<Rightarrow> (LatLng \<times> real) option \<Rightarrow> string + PlaceNew list option) option"
  textSearch :: "string \<Rightarrow> LatLng option \<Rightarrow> real option \<Rightarrow> GooglePlaceResult list \<times> string"
  geocode_location :: "LatLng \<Rightarrow> GeocoderResult list \<times> string"
  geocode_address :: "string \<Rightarrow> GeocoderResult list option \<times> string"

type_synonym 'a promise = "sdk_call list \<times> 'a settled"

text \<open>
  The status strings of \<open>PlacesServiceStatus\<close> and \<open>GeocoderStatus\<close>, as the SDK
  defines them.
\<close>

definition STATUS_OK :: string where
  "STATUS_OK = ''OK''"

definition STATUS_ZERO_RESULTS :: string where
  "STATUS_ZERO_RESULTS = ''ZERO_RESULTS''"

definition placeholder :: string where
  "placeholder = ''/placeholder.svg''"

subsection \<open>Number formatting\<close>

definition digit_char :: "nat \<Rightarrow> char" where
  "digit_char d = ''0123456789'' ! d"

fun nat_to_string :: "nat \<Rightarrow> string" where
  "nat_to_string n =
     (if n < 10 then [digit_char n] else nat_to_string (n div 10) @ [digit_char (n mod 10)])"

declare nat_to_string.simps [simp del]

text \<open>
  \<open>Number.prototype.toFixed(f)\<close> for \<open>\<bar>x\<bar> < 10^21\<close>: the sign, then the integer \<open>n\<close>
  nearest to \<open>\<bar>x\<bar> * 10^f\<close> (the larger one of two), written in decimal with at least
  \<open>f + 1\<close> digits and a point before the last \<open>f\<close>.
\<close>

definition toFixed :: "nat \<Rightarrow> real \<Rightarrow> string" where
  "toFixed f x =
     (let s = (if x < 0 then ''-'' else '''');
          n = nat \<lfloor>\<bar>x\<bar> * 10 ^ f + 1 / 2\<rfloor>;
          m = nat_to_string n;
          m' = (if length m \<le> f then replicate (f + 1 - length m) (CHR ''0'') @ m else m);
          k = length m' - f
      in if f = 0 then s @ m else s @ take k m' @ ''.'' @ drop k m')"

subsection \<open>Photo URLs\<close>

definition startsWith :: "string \<Rightarrow> string \<Rightarrow> bool" where
  "startsWith s p = (take (length p) s = p)"

definition getPlacePhotoUrl :: "Env \<Rightarrow> string \<Rightarrow> nat \<Rightarrow> nat \<Rightarrow> string" where
  "getPlacePhotoUrl env photoReference maxWidth maxHeight =
     (if \<not> truthy_str (GOOGLE_MAPS_API_KEY env) then placeholder
      else if startsWith photoReference ''places/'' then
        URL_href env (''https://places.googleapis.com/v1/'' @ photoReference @ ''/media'')
          [(''maxWidthPx'', nat_to_string maxWidth),
           (''maxHeightPx'', nat_to_string maxHeight),
           (''key'', the (GOOGLE_MAPS_API_KEY env))]
      else
        URL_href env ''https://maps.googleapis.com/maps/api/place/photo''
          [(''photoreference'', photoReference),
           (''maxwidth'', nat_to_string maxWidth),
           (''maxheight'', nat_to_string maxHeight),
           (''key'', the (GOOGLE_MAPS_API_KEY env))])"

definition getBestRestaurantImage :: "Env \<Rightarrow> Photo list option \<Rightarrow> string" where
  "getBestRestaurantImage env photos =
     (case selectBestPhoto photos of
        None \<Rightarrow> placeholder
      | Some bestPhoto \<Rightarrow>
          (let photoRef = or_opt_str (photo_reference bestPhoto) (photo_name bestPhoto)
           in if truthy_str photoRef then getPlacePhotoUrl env (the photoRef) 800 600
              else placeholder))"

subsection \<open>Session\<close>

text \<open>
  \<open>loadGoogleMapsScript\<close>. With a script tag already in the document the promise only
  listens for \<open>google-maps-loaded\<close>; the \<open>onerror\<close> handler exists only on the script
  element that this call creates.
\<close>

definition loadGoogleMapsScript :: "Env \<Rightarrow> unit settled" where
  "loadGoogleMapsScript env =
     (if sdk_loaded env then Resolved ()
      else if \<not> truthy_str (GOOGLE_MAPS_API_KEY env)
      then Rejected (Error ''Google Maps API key is required'')
      else if script_tag_present env then
        (case script_event env of
           LoadedEvent \<Rightarrow> Resolved ()
         | ErrorEvent \<Rightarrow> Pending
         | NoEvent \<Rightarrow> Pending)
      else
        (case script_event env of
           LoadedEvent \<Rightarrow> Resolved ()
         | ErrorEvent \<Rightarrow> Rejected (Error ''Failed to load Google Maps API'')
         | NoEvent \<Rightarrow> Pending))"

text \<open>\<open>waitForGoogleMaps\<close> resolves when the load settles, either way.\<close>

definition waitForGoogleMaps :: "Env \<Rightarrow> unit settled" where
  "waitForGoogleMaps env =
     (if sdk_loaded env then Resolved ()
      else
        (case loadGoogleMapsScript env of
           Resolved u \<Rightarrow> Resolved ()
         | Rejected e \<Rightarrow> Resolved ()
         | Pending \<Rightarrow> Pending))"

text \<open>
  \<open>initializeGoogleMapsService\<close> throws when the SDK is not there after the wait. The
  hidden map and the \<open>PlacesService\<close> it creates on its first successful run are the
  handle through which the legacy entry points of \<open>Env\<close> are reached; they are not
  modelled further.
\<close>

definition initializeGoogleMapsService :: "Env \<Rightarrow> unit settled" where
  "initializeGoogleMapsService env =
     (case waitForGoogleMaps env of
        Pending \<Rightarrow> Pending
      | Rejected e \<Rightarrow> Rejected e
      | Resolved u \<Rightarrow>
          if \<not> (sdk_loaded env \<or> loaded_after_wait env)
          then Rejected (Error ''Google Maps API failed to load'')
          else Resolved ())"

subsection \<open>Nearby search\<close>

text \<open>\<open>typeof v === 'string' && v.trim().length > 0\<close>\<close>

definition usable_name :: "string option \<Rightarrow> bool" where
  "usable_name v = (case v of None \<Rightarrow> False | Some s \<Rightarrow> length (trim s) > 0)"

text \<open>The \<open>if\<close> chain that fills \<open>restaurantName\<close>, which starts as the empty string.\<close>

definition restaurantName :: "PlaceNew \<Rightarrow> string" where
  "restaurantName place =
     (if usable_name (np_Dg_displayName place) then the (np_Dg_displayName place)
      else if usable_name (np_displayName_text place) then the (np_displayName_text place)
      else if usable_name (np_name place) then the (np_name place)
      else if usable_name (np_title place) then the (np_title place)
      else '''')"

text \<open>
  \<open>(place.photos && place.photos[0] && place.photos[0].authorAttributions) ? ... : []\<close>;
  an array, empty or not, is truthy.
\<close>

definition firstPhotoAttributions :: "Photo list option \<Rightarrow> PhotoAttribution list" where
  "firstPhotoAttributions photos =
     (case photos of
        Some (p # _) \<Rightarrow> (case authorAttributions p of Some a \<Rightarrow> a | None \<Rightarrow> [])
      | _ \<Rightarrow> [])"

definition types_or_empty :: "string list option \<Rightarrow> string list" where
  "types_or_empty ts = (case ts of None \<Rightarrow> [] | Some l \<Rightarrow> l)"

text \<open>
  The callback of \<open>places.map\<close> in the new-API branch of \<open>searchNearbyRestaurants\<close>;
  \<open>None\<close> when reading the location throws.
\<close>

definition nearbyPlaceToRestaurant :: "Env \<Rightarrow> UserLocation \<Rightarrow> PlaceNew \<Rightarrow> Restaurant option" where
  "nearbyPlaceToRestaurant env location place =
     (case np_location place of
        None \<Rightarrow> None
      | Some loc \<Rightarrow> Some
          \<lparr> id_r = or_str (np_place_id place) (np_id place),
            name = or_str (Some (restaurantName place)) ''Unknown Restaurant'',
            rating = or_num (np_rating place) 0,
            address = or_str (or_opt_str (np_formattedAddress place) (np_vicinity place)) '''',
            coordinates = \<lparr> lat = lat loc, lng = lng loc \<rparr>,
            cuisine = mapCuisineType (types_or_empty (np_types place)),
            priceLevel = or_num (np_priceLevel place) 2,
            image_r = getBestRestaurantImage env (np_photos place),
            distance = calculateDistance (math env) (lat location) (lng location) (lat loc) (lng loc),
            photoAttributions = Some (firstPhotoAttributions (np_photos place)) \<rparr>)"

text \<open>The callback of \<open>results.map\<close> in the legacy branch.\<close>

definition nearbyResultToRestaurant :: "Env \<Rightarrow> UserLocation \<Rightarrow> GooglePlaceResult \<Rightarrow> Restaurant" where
  "nearbyResultToRestaurant env location place =
     \<lparr> id_r = gp_place_id place,
       name = gp_name place,
       rating = or_num (gp_rating place) 0,
       address = or_str (gp_vicinity place) '''',
       coordinates = \<lparr> lat = lat (gp_location place), lng = lng (gp_location place) \<rparr>,
       cuisine = mapCuisineType (gp_types place),
       priceLevel = or_num (gp_price_level place) 2,
       image_r = getBestRestaurantImage env (gp_photos place),
       distance = calculateDistance (math env) (lat location) (lng location)
                    (lat (gp_location place)) (lng (gp_location place)),
       photoAttributions = Some [] \<rparr>"

text \<open>
  The \<open>try\<close> block of \<open>searchNearbyRestaurants\<close>: \<open>Some\<close> of the value it returns, or
  \<open>None\<close> when control leaves it without a \<open>return\<close> (the guard is falsy, or an
  exception was caught and logged). The request carries the centre and the radius; its
  \<open>includedTypes\<close> is the constant \<open>['restaurant']\<close>, whatever the caller's \<open>type\<close>.
\<close>

definition searchNearby_new ::
  "Env \<Rightarrow> UserLocation \<Rightarrow> real \<Rightarrow> sdk_call list \<times> Restaurant list option" where
  "searchNearby_new env location radius =
     (case Place_searchNearby env of
        None \<Rightarrow> ([], None)
      | Some searchNearby \<Rightarrow>
          ([PlaceSearchNearby \<lparr> lat = lat location, lng = lng location \<rparr> radius],
           case searchNearby \<lparr> lat = lat location, lng = lng location \<rparr> radius of
             Inl exn \<Rightarrow> None
           | Inr response_places \<Rightarrow>
               (let places = (case response_places of None \<Rightarrow> [] | Some ps \<Rightarrow> ps)
                in those (map (nearbyPlaceToRestaurant env location) places))))"

text \<open>The promise around \<open>placesService.nearbySearch\<close>.\<close>

definition searchNearby_legacy ::
  "Env \<Rightarrow> UserLocation \<Rightarrow> real \<Rightarrow> string \<Rightarrow> Restaurant list promise" where
  "searchNearby_legacy env location radius type =
     ([NearbySearch \<lparr> lat = lat location, lng = lng location \<rparr> radius type],
      case nearbySearch env \<lparr> lat = lat location, lng = lng location \<rparr> radius type of
        (results, status) \<Rightarrow>
          if status = STATUS_OK
          then Resolved (map (nearbyResultToRestaurant env location) results)
          else Rejected (Error (''Places API error: '' @ status)))"

definition searchNearbyRestaurants ::
  "Env \<Rightarrow> UserLocation \<Rightarrow> real \<Rightarrow> string \<Rightarrow> Restaurant list promise" where
  "searchNearbyRestaurants env location radius type =
     (case initializeGoogleMapsService env of
        Rejected e \<Rightarrow> ([InitializeService], Rejected e)
      | Pending \<Rightarrow> ([InitializeService], Pending)
      | Resolved u \<Rightarrow>
          (case searchNearby_new env location radius of
             (calls, Some restaurants) \<Rightarrow> (InitializeService # calls, Resolved restaurants)
           | (calls, None) \<Rightarrow>
               (case searchNearby_legacy env location radius type of
                  (calls', r) \<Rightarrow> (InitializeService # calls @ calls', r))))"

subsection \<open>Text search\<close>

definition textPlaceToRestaurant ::
  "Env \<Rightarrow> UserLocation option \<Rightarrow> PlaceNew \<Rightarrow> Restaurant option" where
  "textPlaceToRestaurant env location place =
     (case np_location place of
        None \<Rightarrow> None
      | Some loc \<Rightarrow> Some
          \<lparr> id_r = or_str (np_place_id place) (np_id place),
            name = or_str (or_opt_str (np_displayName_text place) (np_name place))
                     ''Unknown Restaurant'',
            rating = or_num (np_rating place) 0,
            address = or_str (np_formattedAddress place) '''',
            coordinates = \<lparr> lat = lat loc, lng = lng loc \<rparr>,
            cuisine = mapCuisineType (types_or_empty (np_types place)),
            priceLevel = or_num (np_priceLevel place) 2,
            image_r = getBestRestaurantImage env (np_photos place),
            distance = (case location of
                          Some l \<Rightarrow> calculateDistance (math env) (lat l) (lng l) (lat loc) (lng loc)
                        | None \<Rightarrow> Num 0),
            photoAttributions = Some (firstPhotoAttributions (np_photos place)) \<rparr>)"

definition textResultToRestaurant ::
  "Env \<Rightarrow> UserLocation option \<Rightarrow> GooglePlaceResult \<Rightarrow> Restaurant" where
  "textResultToRestaurant env location place =
     \<lparr> id_r = gp_place_id place,
       name = gp_name place,
       rating = or_num (gp_rating place) 0,
       address = or_str (gp_formatted_address place) '''',
       coordinates = \<lparr> lat = lat (gp_location place), lng = lng (gp_location place) \<rparr>,
       cuisine = mapCuisineType (gp_types place),
       priceLevel = or_num (gp_price_level place) 2,
       image_r = getBestRestaurantImage env (gp_photos place),
       distance = (case location of
                     Some l \<Rightarrow> calculateDistance (math env) (lat l) (lng l)
                                 (lat (gp_location place)) (lng (gp_location place))
                   | None \<Rightarrow> Num 0),
       photoAttributions = Some [] \<rparr>"

definition searchByText_new ::
  "Env \<Rightarrow> string \<Rightarrow> UserLocation option \<Rightarrow> real option
     \<Rightarrow> sdk_call list \<times> Restaurant list option" where
  "searchByText_new env query location radius =
     (case Place_searchByText env of
        None \<Rightarrow> ([], None)
      | Some searchByText \<Rightarrow>
          (let locationRestriction =
                 (case location of
                    Some l \<Rightarrow> Some (\<lparr> lat = lat l, lng = lng l \<rparr>, or_num radius 50000)
                  | None \<Rightarrow> None)
           in ([PlaceSearchByText query locationRestriction],
               case searchByText query locationRestriction of
                 Inl exn \<Rightarrow> None
               | Inr response_places \<Rightarrow>
                   (let places = (case response_places of None \<Rightarrow> [] | Some ps \<Rightarrow> ps)
                    in those (map (textPlaceToRestaurant env location) places)))))"

definition searchByText_legacy ::
  "Env \<Rightarrow> string \<Rightarrow> UserLocation option \<Rightarrow> real option \<Rightarrow> Restaurant list promise" where
  "searchByText_legacy env query location radius =
     (let request_location =
            (case location of Some l \<Rightarrow> Some \<lparr> lat = lat l, lng = lng l \<rparr> | None \<Rightarrow> None);
          request_radius =
            (case location of
               Some l \<Rightarrow> (if truthy_num radius then radius else None)
             | None \<Rightarrow> None)
      in ([TextSearch query request_location request_radius],
          case textSearch env query request_location request_radius of
            (results, status) \<Rightarrow>
              if status = STATUS_OK
              then Resolved (map (textResultToRestaurant env location) results)
              else if status = STATUS_ZERO_RESULTS then Resolved []
              else Rejected (Error (''Text Search API error: '' @ status))))"

definition searchPlacesByText ::
  "Env \<Rightarrow> string \<Rightarrow> UserLocation option \<Rightarrow> real option \<Rightarrow> Restaurant list promise" where
  "searchPlacesByText env query location radius =
     (case initializeGoogleMapsService env of
        Rejected e \<Rightarrow> ([InitializeService], Rejected e)
      | Pending \<Rightarrow> ([InitializeService], Pending)
      | Resolved u \<Rightarrow>
          (case searchByText_new env query location radius of
             (calls, Some restaurants) \<Rightarrow> (InitializeService # calls, Resolved restaurants)
           | (calls, None) \<Rightarrow>
               (case searchByText_legacy env query location radius of
                  (calls', r) \<Rightarrow> (InitializeService # calls @ calls', r))))"

subsection \<open>Place details\<close>

text \<open>\<open>place.Dg || {}\<close>: without \<open>Dg\<close>, every member read from \<open>dg\<close> is undefined.\<close>

definition emptyDg :: DgDetails where
  "emptyDg =
     \<lparr> dg_id = None, dg_displayName = None, dg_formattedAddress = None,
       dg_nationalPhoneNumber = None, dg_websiteUri = None, dg_websiteURI = None,
       dg_rating = None, dg_photos = None, dg_currentOpeningHours = None,
       dg_location = None \<rparr>"

text \<open>The callbacks of \<open>photos.map\<close> in the two branches of \<open>getPlaceDetails\<close>.\<close>

definition newPhotoToDetailsPhoto :: "Photo \<Rightarrow> Photo" where
  "newPhotoToDetailsPhoto photo =
     \<lparr> photo_reference = photo_name photo, photo_name = None,
       height = heightPx photo, width = widthPx photo,
       heightPx = None, widthPx = None, authorAttributions = None,
       attributions = Some (case authorAttributions photo of Some a \<Rightarrow> a | None \<Rightarrow> []) \<rparr>"

definition legacyPhotoToDetailsPhoto :: "Photo \<Rightarrow> Photo" where
  "legacyPhotoToDetailsPhoto photo =
     \<lparr> photo_reference = photo_reference photo, photo_name = None,
       height = height photo, width = width photo,
       heightPx = None, widthPx = None, authorAttributions = None,
       attributions = Some [] \<rparr>"

definition fetchedPlaceToDetails :: "string \<Rightarrow> FetchedPlace \<Rightarrow> RestaurantDetails" where
  "fetchedPlaceToDetails placeId place =
     (let dg = (case fp_Dg place of Some d \<Rightarrow> d | None \<Rightarrow> emptyDg)
      in \<lparr> d_place_id =
             or_str (or_opt_str (or_opt_str (dg_id dg) (fp_place_id place)) (fp_id place)) placeId,
           d_name = or_str (dg_displayName dg) ''Unknown Restaurant'',
           d_formatted_address = or_str (dg_formattedAddress dg) '''',
           d_formatted_phone_number = dg_nationalPhoneNumber dg,
           d_website = or_opt_str (dg_websiteUri dg) (dg_websiteURI dg),
           d_rating = or_num (dg_rating dg) 0,
           d_photos =
             (case dg_photos dg of
                Some photos \<Rightarrow>
                  Some (map newPhotoToDetailsPhoto
                          (filter (\<lambda>photo. usable_name (photo_name photo)) photos))
              | None \<Rightarrow> Some []),
           d_opening_hours = dg_currentOpeningHours dg,
           d_location =
             (case dg_location dg of
                Some l \<Rightarrow> \<lparr> lat = lat l, lng = lng l \<rparr>
              | None \<Rightarrow> \<lparr> lat = 0, lng = 0 \<rparr>) \<rparr>)"

definition placeResultToDetails :: "GooglePlaceResult \<Rightarrow> RestaurantDetails" where
  "placeResultToDetails place =
     \<lparr> d_place_id = gp_place_id place,
       d_name = gp_name place,
       d_formatted_address = or_str (gp_formatted_address place) '''',
       d_formatted_phone_number = gp_formatted_phone_number place,
       d_website = gp_website place,
       d_rating = or_num (gp_rating place) 0,
       d_photos = map_option (map legacyPhotoToDetailsPhoto) (gp_photos place),
       d_opening_hours = gp_opening_hours place,
       d_location = \<lparr> lat = lat (gp_location place), lng = lng (gp_location place) \<rparr> \<rparr>"

text \<open>The \<open>try\<close> block of \<open>getPlaceDetails\<close>, read as that of the nearby search.\<close>

definition getPlaceDetails_new ::
  "Env \<Rightarrow> string \<Rightarrow> sdk_call list \<times> RestaurantDetails option" where
  "getPlaceDetails_new env placeId =
     (case Place_fetchFields env of
        None \<Rightarrow> ([], None)
      | Some fetchFields \<Rightarrow>
          ([PlaceFetchFields placeId],
           case fetchFields placeId of
             Inl exn \<Rightarrow> None
           | Inr place \<Rightarrow> Some (fetchedPlaceToDetails placeId place)))"

definition getPlaceDetails_legacy :: "Env \<Rightarrow> string \<Rightarrow> RestaurantDetails promise" where
  "getPlaceDetails_legacy env placeId =
     ([GetDetails placeId],
      case getDetails env placeId of
        (place, status) \<Rightarrow>
          if status = STATUS_OK then Resolved (placeResultToDetails place)
          else Rejected (Error (''Place Details API error: '' @ status)))"

definition getPlaceDetails :: "Env \<Rightarrow> string \<Rightarrow> RestaurantDetails promise" where
  "getPlaceDetails env placeId =
     (case initializeGoogleMapsService env of
        Rejected e \<Rightarrow> ([InitializeService], Rejected e)
      | Pending \<Rightarrow> ([InitializeService], Pending)
      | Resolved u \<Rightarrow>
          (case getPlaceDetails_new env placeId of
             (calls, Some details) \<Rightarrow> (InitializeService # calls, Resolved details)
           | (calls, None) \<Rightarrow>
               (case getPlaceDetails_legacy env placeId of
                  (calls', r) \<Rightarrow> (InitializeService # calls @ calls', r))))"

subsection \<open>Photo enrichment\<close>

text \<open>
  \<open>enhanceRestaurantWithPhotos\<close> catches every rejection of \<open>getPlaceDetails\<close>, so its
  promise never rejects.
\<close>

definition enhanceRestaurantWithPhotos :: "Env \<Rightarrow> Restaurant \<Rightarrow> Restaurant promise" where
  "enhanceRestaurantWithPhotos env restaurant =
     (if image_r restaurant \<noteq> placeholder then ([], Resolved restaurant)
      else
        (case getPlaceDetails env (id_r restaurant) of
           (calls, Resolved details) \<Rightarrow>
             (case d_photos details of
                Some photos \<Rightarrow>
                  if length photos > 0
                  then (calls,
                        Resolved
                          (restaurant \<lparr> image_r := getBestRestaurantImage env (Some photos) \<rparr>))
                  else (calls, Resolved restaurant)
              | None \<Rightarrow> (calls, Resolved restaurant))
         | (calls, Rejected e) \<Rightarrow> (calls, Resolved restaurant)
         | (calls, Pending) \<Rightarrow> (calls, Pending)))"

subsection \<open>Geocoding\<close>

definition coordinateFallback :: "real \<Rightarrow> real \<Rightarrow> string" where
  "coordinateFallback lat' lng' = toFixed 4 lat' @ '', '' @ toFixed 4 lng'"

definition reverseGeocode :: "Env \<Rightarrow> real \<Rightarrow> real \<Rightarrow> string promise" where
  "reverseGeocode env lat' lng' =
     (case initializeGoogleMapsService env of
        Rejected e \<Rightarrow> ([InitializeService], Rejected e)
      | Pending \<Rightarrow> ([InitializeService], Pending)
      | Resolved u \<Rightarrow>
          ([InitializeService, GeocodeLocation \<lparr> lat = lat', lng = lng' \<rparr>],
           case geocode_location env \<lparr> lat = lat', lng = lng' \<rparr> of
             (results, status) \<Rightarrow>
               if status = STATUS_OK \<and> length results > 0
               then Resolved (gr_formatted_address (results ! 0))
               else Resolved (coordinateFallback lat' lng')))"

text \<open>\<open>result.address_components[0]?.long_name || result.formatted_address\<close>\<close>

definition geocoderResultToLocation :: "GeocoderResult \<Rightarrow> LocationSearchResult" where
  "geocoderResultToLocation result =
     \<lparr> ls_place_id = gr_place_id result,
       ls_name =
         or_str (case gr_address_components result of [] \<Rightarrow> None | c # _ \<Rightarrow> c)
           (gr_formatted_address result),
       ls_formatted_address = gr_formatted_address result,
       ls_location = \<lparr> lat = lat (gr_location result), lng = lng (gr_location result) \<rparr>,
       ls_types = types_or_empty (gr_types result) \<rparr>"

definition searchLocationsByText :: "Env \<Rightarrow> string \<Rightarrow> LocationSearchResult list promise" where
  "searchLocationsByText env query =
     (case initializeGoogleMapsService env of
        Rejected e \<Rightarrow> ([InitializeService], Rejected e)
      | Pending \<Rightarrow> ([InitializeService], Pending)
      | Resolved u \<Rightarrow>
          ([InitializeService, GeocodeAddress query],
           case geocode_address env query of
             (results, status) \<Rightarrow>
               if status = STATUS_OK \<and> results \<noteq> None
               then Resolved (map geocoderResultToLocation (the results))
               else if status = STATUS_ZERO_RESULTS then Resolved []
               else Rejected (Error (''Geocoding API error: '' @ status))))"

subsection \<open>Hooks (useLocationSearch, useReverseGeocode)\<close>

text \<open>The three \<open>useState\<close> cells of \<open>useLocationSearch\<close>.\<close>

record LocationSearchState =
  results :: "LocationSearchResult list"
  loading :: bool
  error :: "string option"

text \<open>
  \<open>searchLocations\<close> of \<open>useLocationSearch\<close>: the state once the callback does nothing
  more, and the SDK entry points invoked on the way. Every value thrown is an
  \<open>Error\<close>, so the \<open>catch\<close> stores its message. While the search is pending the state
  stays at \<open>loading\<close>.
\<close>

definition searchLocations ::
  "Env \<Rightarrow> LocationSearchState \<Rightarrow> string \<Rightarrow> sdk_call list \<times> LocationSearchState" where
  "searchLocations env st query =
     (if trim query = [] then ([], st \<lparr> results := [] \<rparr>)
      else
        (let st1 = st \<lparr> loading := True, error := None \<rparr>
         in case searchLocationsByText env query of
              (calls, Resolved locations) \<Rightarrow>
                (calls, st1 \<lparr> results := locations, loading := False \<rparr>)
            | (calls, Rejected (Error message)) \<Rightarrow>
                (calls, st1 \<lparr> error := Some message, results := [], loading := False \<rparr>)
            | (calls, Pending) \<Rightarrow> (calls, st1)))"

record ReverseGeocodeState =
  rg_loading :: bool
  rg_error :: "string option"

text \<open>
  \<open>getAddressFromCoordinates\<close> of \<open>useReverseGeocode\<close>: its promise resolves with a
  string or stays pending.
\<close>

definition getAddressFromCoordinates ::
  "Env \<Rightarrow> ReverseGeocodeState \<Rightarrow> real \<Rightarrow> real
     \<Rightarrow> sdk_call list \<times> ReverseGeocodeState \<times> string settled" where
  "getAddressFromCoordinates env st lat' lng' =
     (let st1 = st \<lparr> rg_loading := True, rg_error := None \<rparr>
      in case reverseGeocode env lat' lng' of
           (calls, Resolved address') \<Rightarrow>
             (calls, st1 \<lparr> rg_loading := False \<rparr>, Resolved address')
         | (calls, Rejected (Error message)) \<Rightarrow>
             (calls, st1 \<lparr> rg_error := Some message, rg_loading := False \<rparr>,
              Resolved (coordinateFallback lat' lng'))
         | (calls, Pending) \<Rightarrow> (calls, st1, Pending))"

subsection \<open>Sample inputs\<close>

text \<open>
  Concrete environments and provider responses at which the operations are evaluated
  below. \<open>plain_href\<close> is a \<open>URL\<close> that escapes nothing.
\<close>

fun plain_query :: "(string \<times> string) list \<Rightarrow> string" where
  "plain_query [] = ''''"
| "plain_query [(k, v)] = k @ ''='' @ v"
| "plain_query ((k, v) # ps) = k @ ''='' @ v @ ''&'' @ plain_query ps"

definition plain_href :: "string \<Rightarrow> (string \<times> string) list \<Rightarrow> string" where
  "plain_href base params = base @ ''?'' @ plain_query params"

definition toronto :: UserLocation where
  "toronto = \<lparr> lat = 43.6532, lng = - 79.3832 \<rparr>"

definition legacy_photo :: "string \<Rightarrow> real \<Rightarrow> real \<Rightarrow> Photo" where
  "legacy_photo ref w h =
     \<lparr> photo_reference = Some ref, photo_name = None, height = Some h, width = Some w,
       heightPx = None, widthPx = None, authorAttributions = None, attributions = None \<rparr>"

definition alice :: PhotoAttribution where
  "alice = \<lparr> displayName = Some ''Alice'', uri = Some ''https://maps.google.com/alice'',
             photoUri = None \<rparr>"

definition new_photo :: "string \<Rightarrow> real \<Rightarrow> real \<Rightarrow> Photo" where
  "new_photo nm w h =
     \<lparr> photo_reference = None, photo_name = Some nm, height = None, width = None,
       heightPx = Some h, widthPx = Some w, authorAttributions = Some [alice],
       attributions = None \<rparr>"

definition legacy_place :: "string \<Rightarrow> GooglePlaceResult" where
  "legacy_place nm =
     \<lparr> gp_place_id = ''ChIJ-legacy-1'', gp_name = nm, gp_vicinity = Some ''1 Main St'',
       gp_formatted_address = Some ''1 Main St, Toronto'',
       gp_location = \<lparr> lat = 43.65, lng = - 79.38 \<rparr>,
       gp_rating = Some 4.5, gp_price_level = None,
       gp_types = [''thai_restaurant'', ''restaurant''],
       gp_photos = None, gp_opening_hours = None, gp_formatted_phone_number = None,
       gp_website = None \<rparr>"

definition nameless_place :: PlaceNew where
  "nameless_place =
     \<lparr> np_Dg_displayName = None, np_displayName_text = Some '''', np_name = None,
       np_title = None, np_place_id = None, np_id = ''ChIJ-new-1'', np_rating = None,
       np_formattedAddress = None, np_vicinity = None,
       np_location = Some \<lparr> lat = 43.65, lng = - 79.38 \<rparr>,
       np_types = None, np_priceLevel = None, np_photos = None \<rparr>"

text \<open>
  A \<open>Math\<close> with correctly rounded functions. The values are written out at the
  arguments that \<open>calculateDistance(2.5, -180, -2.5, 0)\<close> meets: the sine of half the
  latitude difference, the cosine of either latitude, and the sine of half the
  longitude difference, which is \<open>Math.PI / 2\<close>.
\<close>

definition sample_math :: Math where
  "sample_math =
     \<lparr> Math_sin =
         (\<lambda>x. if x = - (6288211335136391 / 2 ^ 57) then - (6286216213909009 / 2 ^ 57)
              else if x = 884279719003555 / 2 ^ 49 then 1
              else fl (sin x)),
       Math_cos =
         (\<lambda>x. if x = 6288211335136391 / 2 ^ 57 \<or> x = - (6288211335136391 / 2 ^ 57)
              then 8998626396882423 / 2 ^ 53
              else fl (cos x)),
       Math_atan2 = (\<lambda>y x. fl (atan2 y x)) \<rparr>"

text \<open>
  The SDK is loaded, no entry point of the new API exists, and every legacy call and
  geocoder call reports \<open>ZERO_RESULTS\<close>.
\<close>

definition env_zero :: Env where
  "env_zero =
     \<lparr> GOOGLE_MAPS_API_KEY = Some ''KEY'',
       URL_href = plain_href,
       math = sample_math,
       sdk_loaded = True,
       script_tag_present = True,
       script_event = LoadedEvent,
       loaded_after_wait = True,
       Place_searchNearby = None,
       nearbySearch = (\<lambda>location radius type. ([], ''ZERO_RESULTS'')),
       Place_fetchFields = None,
       getDetails = (\<lambda>placeId. (legacy_place '''', ''ZERO_RESULTS'')),
       Place_searchByText = None,
       textSearch = (\<lambda>query location radius. ([], ''ZERO_RESULTS'')),
       geocode_location = (\<lambda>location. ([], ''ZERO_RESULTS'')),
       geocode_address = (\<lambda>query. (None, ''ZERO_RESULTS'')) \<rparr>"

text \<open>The new nearby search answers without places.\<close>

definition env_new_empty :: Env where
  "env_new_empty = env_zero \<lparr> Place_searchNearby := Some (\<lambda>center radius. Inr (Some [])) \<rparr>"

text \<open>The new nearby search throws; the legacy one answers \<open>OK\<close> with one place.\<close>

definition env_fallback :: "string \<Rightarrow> Env" where
  "env_fallback nm =
     env_zero \<lparr> Place_searchNearby := Some (\<lambda>center radius. Inl ''TypeError''),
                nearbySearch := (\<lambda>location radius type. ([legacy_place nm], ''OK'')),
                textSearch := (\<lambda>query location radius. ([legacy_place nm], ''OK'')) \<rparr>"

text \<open>The new searches throw; the legacy ones report \<open>ZERO_RESULTS\<close>.\<close>

definition env_new_throws :: Env where
  "env_new_throws =
     env_zero \<lparr> Place_searchNearby := Some (\<lambda>center radius. Inl ''TypeError''),
                Place_searchByText := Some (\<lambda>query restriction. Inl ''TypeError'') \<rparr>"

text \<open>Both nearby searches fail.\<close>

definition env_both_fail :: Env where
  "env_both_fail =
     env_zero \<lparr> Place_searchNearby := Some (\<lambda>center radius. Inl ''TypeError''),
                nearbySearch := (\<lambda>location radius type. ([], ''REQUEST_DENIED'')) \<rparr>"

text \<open>The new searches answer with one place that has no usable name.\<close>

definition env_nameless :: Env where
  "env_nameless =
     env_zero \<lparr> Place_searchNearby := Some (\<lambda>center radius. Inr (Some [nameless_place])),
                Place_searchByText := Some (\<lambda>query restriction. Inr (Some [nameless_place])) \<rparr>"

text \<open>There is no API key, so no script is requested and the SDK never arrives.\<close>

definition env_unloaded :: Env where
  "env_unloaded =
     env_zero \<lparr> GOOGLE_MAPS_API_KEY := None, sdk_loaded := False, script_tag_present := False,
                script_event := NoEvent, loaded_after_wait := False \<rparr>"

text \<open>
  An earlier load failed: its script tag is in the document, the SDK is not there, and
  \<open>google-maps-loaded\<close> never comes.
\<close>

definition env_stuck :: Env where
  "env_stuck =
     env_zero \<lparr> sdk_loaded := False, script_tag_present := True, script_event := ErrorEvent,
                loaded_after_wait := False \<rparr>"

text \<open>The geocoder fails.\<close>

definition env_geocoder_error :: Env where
  "env_geocoder_error = env_zero \<lparr> geocode_location := (\<lambda>location. ([], ''ERROR'')) \<rparr>"

text \<open>The details of a place arrive through the new API, with one attributed photo.\<close>

definition fetched_place :: "string \<Rightarrow> FetchedPlace" where
  "fetched_place placeId =
     \<lparr> fp_Dg = Some (emptyDg \<lparr> dg_id := Some placeId,
                                dg_photos := Some [new_photo ''places/p1/photos/a'' 1200 800] \<rparr>),
       fp_place_id = None, fp_id = Some placeId \<rparr>"

definition env_details :: Env where
  "env_details = env_zero \<lparr> Place_fetchFields := Some (\<lambda>placeId. Inr (fetched_place placeId)) \<rparr>"

definition bare_restaurant :: Restaurant where
  "bare_restaurant =
     \<lparr> id_r = ''ChIJ-legacy-1'', name = ''Pai'', rating = 4.5, address = ''1 Main St'',
       coordinates = \<lparr> lat = 43.65, lng = - 79.38 \<rparr>, cuisine = Label ''Thai'',
       priceLevel = 2, image_r = ''/placeholder.svg'', distance = Num 0.5,
       photoAttributions = Some [] \<rparr>"

definition idle :: LocationSearchState where
  "idle = \<lparr> results = [], loading = False, error = None \<rparr>"

text \<open>
  The awaited call of the new nearby search throws. (With the entry point missing there
  is no call.)
\<close>

definition newNearbyThrows :: "Env \<Rightarrow> UserLocation \<Rightarrow> real \<Rightarrow> bool" where
  "newNearbyThrows env location radius =
     (case Place_searchNearby env of
        None \<Rightarrow> False
      | Some searchNearby \<Rightarrow>
          (case searchNearby \<lparr> lat = lat location, lng = lng location \<rparr> radius of
             Inl exn \<Rightarrow> True
           | Inr response_places \<Rightarrow> False))"

section \<open>Properties\<close>

lemmas js_or_defs =
  truthy_num_def truthy_str_def or_num_def or_str_def or_opt_str_def or_opt_num_def

lemmas photo_defs =
  photoWidth_def photoHeight_def photoSize_def landscape_def portrait_def legacy_photo_def
  new_photo_def

lemmas session_defs =
  initializeGoogleMapsService_def waitForGoogleMaps_def loadGoogleMapsScript_def

lemmas nearby_defs =
  searchNearbyRestaurants_def session_defs searchNearby_new_def
  searchNearby_legacy_def STATUS_OK_def STATUS_ZERO_RESULTS_def

lemmas text_defs =
  searchPlacesByText_def session_defs searchByText_new_def
  searchByText_legacy_def STATUS_OK_def STATUS_ZERO_RESULTS_def

lemmas env_defs =
  env_zero_def env_new_empty_def env_fallback_def env_new_throws_def env_both_fail_def
  env_nameless_def env_unloaded_def env_stuck_def env_geocoder_error_def env_details_def
  fetched_place_def toronto_def

subsection \<open>Distance\<close>

text \<open>Rounding at a known binary exponent.\<close>

lemma fl_eval: "2 powi e \<le> \<bar>x\<bar> \<Longrightarrow> \<bar>x\<bar> < 2 powi (e + 1) \<Longrightarrow> fl x = fl_at e x"
proof -
  assume a: "2 powi e \<le> \<bar>x\<bar>" and b: "\<bar>x\<bar> < 2 powi (e + 1)"
  have "(0::real) < 2 powi e" by simp
  with a have x: "0 < \<bar>x\<bar>" by linarith
  have q1: "2 powr real_of_int e = (2::real) powi e"
    by (simp add: powr_real_of_int')
  have q2: "2 powr (real_of_int e + 1) = (2::real) powi (e + 1)"
    using powr_real_of_int' [of "2::real" "e + 1"] by simp
  have "\<lfloor>log 2 \<bar>x\<bar>\<rfloor> = e"
    using a b x by (simp add: floor_log_eq_powr_iff q1 q2)
  with x show ?thesis by (auto simp: fl_def)
qed

lemmas fl_at_defs = fl_at_def round_even_def power_int_minus Let_def

lemma fl_0: "fl 0 = 0"
  by (simp add: fl_def)

lemma fl_1: "fl 1 = 1"
  by (subst fl_eval [of 0]) (simp_all add: fl_at_defs)

text \<open>The roundings that \<open>calculateDistance(2.5, -180, -2.5, 0)\<close> meets, in source order.\<close>

lemma fl_PI_180: "fl (Math_PI / 180) = 5030569068109113 / 2 ^ 58"
  by (subst fl_eval [of "- 6"]) (simp_all add: Math_PI_def fl_at_defs)

lemma fl_minus_5: "fl (- 5) = - 5"
  by (subst fl_eval [of 2]) (simp_all add: fl_at_defs)

lemma fl_180: "fl 180 = 180"
  by (subst fl_eval [of 7]) (simp_all add: fl_at_defs)

lemma fl_dLat: "fl (- 5 * (5030569068109113 / 2 ^ 58)) = - (6288211335136391 / 2 ^ 56)"
  by (subst fl_eval [of "- 4"]) (simp_all add: fl_at_defs)

lemma fl_dLng: "fl (180 * (5030569068109113 / 2 ^ 58)) = 884279719003555 / 2 ^ 48"
  by (subst fl_eval [of 1]) (simp_all add: fl_at_defs)

lemma fl_half_dLat: "fl (- (6288211335136391 / 2 ^ 56) / 2) = - (6288211335136391 / 2 ^ 57)"
  by (subst fl_eval [of "- 5"]) (simp_all add: fl_at_defs)

lemma fl_half_dLng: "fl (884279719003555 / 2 ^ 48 / 2) = 884279719003555 / 2 ^ 49"
  by (subst fl_eval [of 0]) (simp_all add: fl_at_defs)

lemma fl_lat1: "fl (2.5 * (5030569068109113 / 2 ^ 58)) = 6288211335136391 / 2 ^ 57"
  by (subst fl_eval [of "- 5"]) (simp_all add: fl_at_defs)

lemma fl_lat2: "fl (- 2.5 * (5030569068109113 / 2 ^ 58)) = - (6288211335136391 / 2 ^ 57)"
  by (subst fl_eval [of "- 5"]) (simp_all add: fl_at_defs)

lemma fl_sin_sin:
  "fl (- (6286216213909009 / 2 ^ 57) * - (6286216213909009 / 2 ^ 57)) =
     4387214401548047 / 2 ^ 61"
  by (subst fl_eval [of "- 10"]) (simp_all add: fl_at_defs)

lemma fl_cos_cos:
  "fl (8998626396882423 / 2 ^ 53 * (8998626396882423 / 2 ^ 53)) = 4495030849242473 / 2 ^ 52"
  by (subst fl_eval [of "- 1"]) (simp_all add: fl_at_defs)

lemma fl_times_1: "fl (4495030849242473 / 2 ^ 52 * 1) = 4495030849242473 / 2 ^ 52"
  by (subst fl_eval [of "- 1"]) (simp_all add: fl_at_defs)

lemma fl_a: "fl (4387214401548047 / 2 ^ 61 + 4495030849242473 / 2 ^ 52) = 4503599627370497 / 2 ^ 52"
  by (subst fl_eval [of 0]) (simp_all add: fl_at_defs)

lemma fl_1_minus_a: "fl (1 - 4503599627370497 / 2 ^ 52) = - (1 / 2 ^ 52)"
  by (subst fl_eval [of "- 52"]) (simp_all add: fl_at_defs)

text \<open>There \<open>a\<close> is \<open>1 + 2^-52\<close>, the double after 1.\<close>

lemma haversine_a_antipodal:
  assumes "Math_sin M (- (6288211335136391 / 2 ^ 57)) = - (6286216213909009 / 2 ^ 57)"
    and "Math_cos M (6288211335136391 / 2 ^ 57) = 8998626396882423 / 2 ^ 53"
    and "Math_cos M (- (6288211335136391 / 2 ^ 57)) = 8998626396882423 / 2 ^ 53"
    and "Math_sin M (884279719003555 / 2 ^ 49) = 1"
  shows "haversine_a M 2.5 (- 180) (- 2.5) 0 = 4503599627370497 / 2 ^ 52"
proof -
  have d1: "(- 2.5 - 2.5 :: real) = - 5" by simp
  have d2: "(0 - (- 180) :: real) = 180" by simp
  show ?thesis
    unfolding haversine_a_def Let_def d1 d2 fl_PI_180 fl_minus_5 fl_180 fl_dLat fl_dLng
      fl_half_dLat fl_half_dLng fl_lat1 fl_lat2 assms fl_sin_sin fl_cos_cos fl_times_1 fl_a
    by (rule refl)
qed

text \<open>
  The distance of a point to itself is 0 on every platform whose sine vanishes at 0 and
  whose \<open>Math.atan2(0, 1)\<close> is 0.
\<close>

lemma calculateDistance_self:
  "Math_sin M 0 = 0 \<Longrightarrow> Math_atan2 M 0 1 = 0 \<Longrightarrow> calculateDistance M lat1 lng1 lat1 lng1 = Num 0"
  by (simp add: calculateDistance_def haversine_a_def fl_0 fl_1)

text \<open>
  Rounding commutes with the sign. So the two directions compute the same value, NaN
  or not, on every platform whose sine is odd.
\<close>

lemma round_even_minus: "round_even (- y) = - round_even y"
proof (cases "y = of_int \<lfloor>y\<rfloor>")
  case True
  then obtain n :: int where n: "y = of_int n" by metis
  have "- y = of_int (- n)" using n by simp
  then have "\<lfloor>- y\<rfloor> = - n" by (metis floor_of_int)
  then show ?thesis using n by (simp add: round_even_def Let_def)
next
  case False
  then have c: "\<lceil>y\<rceil> = \<lfloor>y\<rfloor> + 1"
    by (simp add: ceiling_altdef)
  have "\<lfloor>- y\<rfloor> = - \<lceil>y\<rceil>"
    by (simp add: ceiling_def)
  with c have f: "\<lfloor>- y\<rfloor> = - \<lfloor>y\<rfloor> - 1"
    by simp
  have lt: "of_int \<lfloor>y\<rfloor> < y"
    using False of_int_floor_le [of y] by linarith
  show ?thesis
    using lt by (auto simp: round_even_def Let_def f)
qed

lemma fl_minus: "fl (- x) = - fl x"
  by (simp add: fl_def fl_at_def round_even_minus)

lemma fl_swap:
  fixes k :: real
  shows "fl (fl (fl (q - p) * k) / 2) = - fl (fl (fl (p - q) * k) / 2)"
proof -
  have "q - p = - (p - q)" by simp
  then have "fl (q - p) = - fl (p - q)" by (simp only: fl_minus)
  then have "fl (fl (q - p) * k) = - fl (fl (p - q) * k)" by (simp only: mult_minus_left fl_minus)
  then have "fl (fl (q - p) * k) / 2 = - (fl (fl (p - q) * k) / 2)" by (simp only: minus_divide_left)
  then show ?thesis by (simp only: fl_minus)
qed

lemma haversine_a_symmetric:
  assumes odd: "\<forall>x. Math_sin M (- x) = - Math_sin M x"
  shows "haversine_a M lat1 lng1 lat2 lng2 = haversine_a M lat2 lng2 lat1 lng1"
proof -
  define k where "k = fl (Math_PI / 180)"
  define s where "s p q = Math_sin M (fl (fl (fl (q - p) * k) / 2))" for p q :: real
  define c where "c = fl (Math_cos M (fl (lat1 * k)) * Math_cos M (fl (lat2 * k)))"
  have sw: "s p q = - s q p" for p q
    unfolding s_def fl_swap [of q p k] using odd by blast
  have sq: "fl (s p q * s p q) = fl (s q p * s q p)" for p q
    by (simp only: sw [of p q] minus_mult_minus)
  have tw: "fl (fl (c * s p q) * s p q) = fl (fl (c * s q p) * s q p)" for p q
    by (simp only: sw [of p q] mult_minus_right mult_minus_left fl_minus minus_minus)
  have c': "fl (Math_cos M (fl (lat2 * k)) * Math_cos M (fl (lat1 * k))) = c"
    unfolding c_def by (simp only: mult.commute [of "Math_cos M (fl (lat2 * k))"])
  have "haversine_a M lat1 lng1 lat2 lng2 =
          fl (fl (s lat1 lat2 * s lat1 lat2) + fl (fl (c * s lng1 lng2) * s lng1 lng2))"
    unfolding haversine_a_def Let_def k_def s_def c_def by (rule refl)
  also have "\<dots> = fl (fl (s lat2 lat1 * s lat2 lat1) + fl (fl (c * s lng2 lng1) * s lng2 lng1))"
    by (simp only: sq [of lat1 lat2] tw [of lng1 lng2])
  also have "\<dots> = haversine_a M lat2 lng2 lat1 lng1"
    unfolding haversine_a_def Let_def k_def [symmetric] c' s_def by (rule refl)
  finally show ?thesis .
qed

lemma calculateDistance_same_value:
  assumes odd: "\<forall>x. Math_sin M (- x) = - Math_sin M x"
  shows "calculateDistance M lat1 lng1 lat2 lng2 = calculateDistance M lat2 lng2 lat1 lng1"
  unfolding calculateDistance_def haversine_a_symmetric [OF odd, of lat1 lng1 lat2 lng2]
  by (rule refl)

text \<open>
  Claim C9 at a near-antipodal pair. Let \<open>Math.sin\<close> and \<open>Math.cos\<close> return the doubles
  nearest to the exact values at the three arguments that
  \<open>calculateDistance(2.5, -180, -2.5, 0)\<close> meets. Then \<open>a\<close> rounds to \<open>1 + 2^-52\<close>,
  \<open>Math.sqrt(1 - a)\<close> is NaN and so is the distance: it is not equal to the distance in
  the other direction, whatever that is.
\<close>

theorem calculateDistance_antipodal_NaN:
  assumes "Math_sin M (- (6288211335136391 / 2 ^ 57)) = - (6286216213909009 / 2 ^ 57)"
    and "Math_cos M (6288211335136391 / 2 ^ 57) = 8998626396882423 / 2 ^ 53"
    and "Math_cos M (- (6288211335136391 / 2 ^ 57)) = 8998626396882423 / 2 ^ 53"
    and "Math_sin M (884279719003555 / 2 ^ 49) = 1"
  shows "calculateDistance M 2.5 (- 180) (- 2.5) 0 = NaN \<and>
         \<not> strict_equal (calculateDistance M 2.5 (- 180) (- 2.5) 0)
                          (calculateDistance M (- 2.5) 0 2.5 (- 180))"
proof -
  have n: "calculateDistance M 2.5 (- 180) (- 2.5) 0 = NaN"
    unfolding calculateDistance_def Let_def haversine_a_antipodal [OF assms] fl_1_minus_a
    by simp
  then show ?thesis
    by (simp add: strict_equal_def)
qed

theorem calculateDistance_antipodal_NaN_witness:
  "Math_sin sample_math (- (6288211335136391 / 2 ^ 57)) = - (6286216213909009 / 2 ^ 57) \<and>
   Math_cos sample_math (6288211335136391 / 2 ^ 57) = 8998626396882423 / 2 ^ 53 \<and>
   Math_cos sample_math (- (6288211335136391 / 2 ^ 57)) = 8998626396882423 / 2 ^ 53 \<and>
   Math_sin sample_math (884279719003555 / 2 ^ 49) = 1 \<and>
   calculateDistance sample_math 2.5 (- 180) (- 2.5) 0 = NaN \<and>
   \<not> strict_equal (calculateDistance sample_math 2.5 (- 180) (- 2.5) 0)
                    (calculateDistance sample_math (- 2.5) 0 2.5 (- 180))"
proof -
  have h1: "Math_sin sample_math (- (6288211335136391 / 2 ^ 57)) =
              - (6286216213909009 / 2 ^ 57)"
    by (simp add: sample_math_def)
  have h2: "Math_cos sample_math (6288211335136391 / 2 ^ 57) = 8998626396882423 / 2 ^ 53"
    by (simp add: sample_math_def)
  have h3: "Math_cos sample_math (- (6288211335136391 / 2 ^ 57)) = 8998626396882423 / 2 ^ 53"
    by (simp add: sample_math_def)
  have h4: "Math_sin sample_math (884279719003555 / 2 ^ 49) = 1"
    by (simp add: sample_math_def)
  from calculateDistance_antipodal_NaN [OF h1 h2 h3 h4] h1 h2 h3 h4
  show ?thesis by blast
qed

subsection \<open>Cuisine classification\<close>

lemma cuisineMap_labels_truthy: "map_of cuisineMap t = Some l \<Longrightarrow> l \<noteq> []"
  by (auto simp: cuisineMap_def split: if_splits)

text \<open>
  A tag that names a member of \<open>Object.prototype\<close> is a hit: the function is returned
  in place of a label.
\<close>

lemma mapCuisineType_prototype_member:
  "mapCuisineType [''toString'', ''thai_restaurant''] = PrototypeMember ''toString''"
  by (simp add: cuisineMap_get_def cuisineMap_def object_prototype_members_def truthy_value_def)

text \<open>
  Claim C4 as stated fails: with the generic tag first, the generic label is returned
  although a specific cuisine tag is in the sequence.
\<close>

theorem mapCuisineType_generic_first:
  "''thai_restaurant'' \<in> set specific_tags \<and> ''restaurant'' \<in> set generic_tags \<and>
   map_of cuisineMap ''thai_restaurant'' = Some ''Thai'' \<and>
   mapCuisineType [''restaurant'', ''thai_restaurant''] = Label ''Restaurant'' \<and>
   mapCuisineType [''thai_restaurant'', ''restaurant''] = Label ''Thai''"
  by (simp add: specific_tags_def generic_tags_def cuisineMap_get_def cuisineMap_def
        truthy_value_def)

text \<open>
  Claim C4, amended. Among tags that name no member of \<open>Object.prototype\<close>,
  \<open>mapCuisineType\<close> returns the label of the first tag of the input sequence that is a
  key of the table, whatever kind of tag it is: a specific cuisine tag wins over a generic
  one when no key of the table comes before it. For a sequence of such tags with none
  in the table it returns \<open>"Restaurant"\<close>.
\<close>

theorem mapCuisineType_first_match:
  "((\<forall>t \<in> set pre. map_of cuisineMap t = None \<and> t \<notin> set object_prototype_members) \<and>
    map_of cuisineMap s = Some l \<longrightarrow>
      mapCuisineType (pre @ s # post) = Label l) \<and>
   ((\<forall>t \<in> set types. map_of cuisineMap t = None \<and> t \<notin> set object_prototype_members) \<longrightarrow>
      mapCuisineType types = Label ''Restaurant'')"
proof (intro conjI impI)
  assume "(\<forall>t \<in> set pre. map_of cuisineMap t = None \<and> t \<notin> set object_prototype_members) \<and>
    map_of cuisineMap s = Some l"
  then show "mapCuisineType (pre @ s # post) = Label l"
    by (induction pre)
       (auto simp: cuisineMap_get_def truthy_value_def dest: cuisineMap_labels_truthy)
next
  assume "\<forall>t \<in> set types. map_of cuisineMap t = None \<and> t \<notin> set object_prototype_members"
  then show "mapCuisineType types = Label ''Restaurant''"
    by (induction types) (auto simp: cuisineMap_get_def truthy_value_def)
qed

theorem mapCuisineType_first_match_witness:
  "map_of cuisineMap ''point_of_interest'' = None \<and>
   ''point_of_interest'' \<notin> set object_prototype_members \<and>
   map_of cuisineMap ''thai_restaurant'' = Some ''Thai'' \<and>
   mapCuisineType [''point_of_interest'', ''thai_restaurant'', ''restaurant'', ''food''] =
     Label ''Thai'' \<and>
   map_of cuisineMap ''establishment'' = None \<and>
   ''establishment'' \<notin> set object_prototype_members \<and>
   map_of cuisineMap ''store'' = None \<and>
   ''store'' \<notin> set object_prototype_members \<and>
   mapCuisineType [''establishment'', ''store''] = Label ''Restaurant''"
proof -
  have k1: "map_of cuisineMap ''point_of_interest'' = None"
    and k2: "map_of cuisineMap ''establishment'' = None"
    and k3: "map_of cuisineMap ''store'' = None"
    by (simp_all add: cuisineMap_def)
  have m1: "''point_of_interest'' \<notin> set object_prototype_members"
    and m2: "''establishment'' \<notin> set object_prototype_members"
    and m3: "''store'' \<notin> set object_prototype_members"
    by (simp_all add: object_prototype_members_def)
  have h1: "\<forall>t \<in> set [''point_of_interest''].
              map_of cuisineMap t = None \<and> t \<notin> set object_prototype_members"
    using k1 m1 by simp
  have h2: "map_of cuisineMap ''thai_restaurant'' = Some ''Thai''"
    by (simp add: cuisineMap_def)
  have h3: "\<forall>t \<in> set [''establishment'', ''store''].
              map_of cuisineMap t = None \<and> t \<notin> set object_prototype_members"
    using k2 k3 m2 m3 by simp
  from mapCuisineType_first_match
    [of "[''point_of_interest'']" "''thai_restaurant''" "''Thai''" "[''restaurant'', ''food'']"
        "[''establishment'', ''store'']"] h1 h2 h3
  have "mapCuisineType ([''point_of_interest''] @ ''thai_restaurant'' # [''restaurant'', ''food'']) =
          Label ''Thai''"
    and r2: "mapCuisineType [''establishment'', ''store''] = Label ''Restaurant''"
    by blast+
  then have r1: "mapCuisineType [''point_of_interest'', ''thai_restaurant'', ''restaurant'', ''food''] =
          Label ''Thai''"
    by simp
  from k1 m1 h2 r1 k2 m2 k3 m3 r2 show ?thesis by blast
qed

subsection \<open>Photo selection\<close>

lemma bestPhoto_scan_mono: "photoSize b \<le> photoSize (bestPhoto_scan b ps)"
proof (induction ps arbitrary: b)
  case Nil
  show ?case by simp
next
  case (Cons p ps)
  show ?case
    using Cons.IH [of b] Cons.IH [of p]
    by (auto simp: Let_def photoSize_def)
qed

lemma bestPhoto_scan_landscape_le:
  "l \<in> set ps \<Longrightarrow> landscape l \<Longrightarrow> photoSize l \<le> photoSize (bestPhoto_scan b ps)"
proof (induction ps arbitrary: b)
  case Nil
  then show ?case by simp
next
  case (Cons p ps)
  show ?case
  proof (cases "l = p")
    case True
    with Cons.prems bestPhoto_scan_mono [of p ps] bestPhoto_scan_mono [of b ps]
    show ?thesis
      by (auto simp: Let_def landscape_def photoSize_def)
  next
    case False
    with Cons.prems have "l \<in> set ps" by simp
    from Cons.IH [OF this Cons.prems(2)] show ?thesis
      by (simp add: Let_def)
  qed
qed

text \<open>The loop over a sequence in two parts.\<close>

lemma bestPhoto_scan_append:
  "bestPhoto_scan b (xs @ ys) = bestPhoto_scan (bestPhoto_scan b xs) ys"
  by (induction xs arbitrary: b) (simp_all add: Let_def)

text \<open>Photos that are not strictly larger than \<open>bestPhoto\<close> never replace it.\<close>

lemma bestPhoto_scan_keeps:
  "(\<forall>l \<in> set ps. landscape l \<longrightarrow> photoSize l \<le> photoSize b) \<Longrightarrow> bestPhoto_scan b ps = b"
proof (induction ps)
  case Nil
  show ?case by simp
next
  case (Cons p ps)
  then have rest: "bestPhoto_scan b ps = b" by simp
  from Cons.prems have "landscape p \<longrightarrow> photoSize p \<le> photoSize b" by simp
  then show ?case
    using rest by (auto simp: Let_def landscape_def photoSize_def)
qed

text \<open>
  Claim C3 as stated fails at equal areas: the first photo is portrait (800 x 1200), the
  second is landscape (1200 x 800, ratio 1.5) with the same pixel area, and the portrait
  one is selected.
\<close>

theorem selectBestPhoto_tie_keeps_portrait:
  "selectBestPhoto (Some [legacy_photo ''a'' 800 1200, legacy_photo ''b'' 1200 800]) =
     Some (legacy_photo ''a'' 800 1200) \<and>
   portrait (legacy_photo ''a'' 800 1200) \<and>
   landscape (legacy_photo ''b'' 1200 800) \<and>
   photoSize (legacy_photo ''b'' 1200 800) \<ge> photoSize (legacy_photo ''a'' 800 1200)"
  by (simp add: selectBestPhoto_def photo_defs js_or_defs)

text \<open>
  Claim C3, amended. The selection never returns a portrait-oriented candidate when a
  landscape candidate of strictly larger pixel area exists in the sequence: whenever the
  selected photo is portrait, every landscape candidate of the sequence has a pixel area
  of at most the selected one's. And at equal pixel area the earlier candidate is kept,
  portrait or not: candidates that follow the selected one of a sequence, none of them a
  landscape photo of strictly larger pixel area, leave the selection as it is.
\<close>

theorem selectBestPhoto_portrait_bound:
  "(selectBestPhoto (Some photos) = Some best \<and> portrait best \<and>
    l \<in> set photos \<and> landscape l \<longrightarrow> \<not> photoSize l > photoSize best) \<and>
   (selectBestPhoto (Some xs) = Some c \<and>
    (\<forall>y \<in> set ys. landscape y \<longrightarrow> photoSize y \<le> photoSize c) \<longrightarrow>
      selectBestPhoto (Some (xs @ ys)) = Some c)"
proof (intro conjI impI)
  assume "selectBestPhoto (Some photos) = Some best \<and> portrait best \<and>
    l \<in> set photos \<and> landscape l"
  then show "\<not> photoSize l > photoSize best"
    using bestPhoto_scan_landscape_le [of l photos "hd photos"]
    by (auto simp: selectBestPhoto_def split: list.splits)
next
  assume h: "selectBestPhoto (Some xs) = Some c \<and>
    (\<forall>y \<in> set ys. landscape y \<longrightarrow> photoSize y \<le> photoSize c)"
  then obtain x xs' where xs: "xs = x # xs'" and c: "bestPhoto_scan x (x # xs') = c"
    by (auto simp: selectBestPhoto_def split: list.splits)
  have "bestPhoto_scan x ((x # xs') @ ys) = bestPhoto_scan c ys"
    using bestPhoto_scan_append [of x "x # xs'" ys] c by simp
  also have "\<dots> = c"
    using h bestPhoto_scan_keeps [of ys c] by blast
  finally show "selectBestPhoto (Some (xs @ ys)) = Some c"
    using xs by (simp add: selectBestPhoto_def)
qed

text \<open>
  A portrait first photo with a smaller landscape one after it; and the tie of the two
  orientations, then of two landscape photos.
\<close>

theorem selectBestPhoto_portrait_bound_witness:
  "selectBestPhoto (Some [legacy_photo ''a'' 400 600, legacy_photo ''b'' 200 100]) =
     Some (legacy_photo ''a'' 400 600) \<and>
   portrait (legacy_photo ''a'' 400 600) \<and>
   landscape (legacy_photo ''b'' 200 100) \<and>
   \<not> photoSize (legacy_photo ''b'' 200 100) > photoSize (legacy_photo ''a'' 400 600) \<and>
   selectBestPhoto (Some [legacy_photo ''a'' 800 1200]) = Some (legacy_photo ''a'' 800 1200) \<and>
   landscape (legacy_photo ''b'' 1200 800) \<and>
   photoSize (legacy_photo ''b'' 1200 800) \<le> photoSize (legacy_photo ''a'' 800 1200) \<and>
   selectBestPhoto (Some ([legacy_photo ''a'' 800 1200] @ [legacy_photo ''b'' 1200 800])) =
     Some (legacy_photo ''a'' 800 1200) \<and>
   selectBestPhoto (Some [legacy_photo ''c'' 1200 800]) = Some (legacy_photo ''c'' 1200 800) \<and>
   landscape (legacy_photo ''d'' 1200 800) \<and>
   photoSize (legacy_photo ''d'' 1200 800) \<le> photoSize (legacy_photo ''c'' 1200 800) \<and>
   selectBestPhoto (Some ([legacy_photo ''c'' 1200 800] @ [legacy_photo ''d'' 1200 800])) =
     Some (legacy_photo ''c'' 1200 800)"
proof -
  let ?a = "legacy_photo ''a'' 400 600" and ?b = "legacy_photo ''b'' 200 100"
  let ?p = "legacy_photo ''a'' 800 1200" and ?q = "legacy_photo ''b'' 1200 800"
  let ?c = "legacy_photo ''c'' 1200 800" and ?d = "legacy_photo ''d'' 1200 800"
  have h1: "selectBestPhoto (Some [?a, ?b]) = Some ?a"
    by (simp add: selectBestPhoto_def photo_defs js_or_defs)
  have h2: "portrait ?a"
    by (simp add: photo_defs js_or_defs)
  have h3: "?b \<in> set [?a, ?b]"
    by simp
  have h4: "landscape ?b"
    by (simp add: photo_defs js_or_defs)
  have g1: "selectBestPhoto (Some [?p]) = Some ?p"
    by (simp add: selectBestPhoto_def photo_defs js_or_defs)
  have g2: "landscape ?q" and g3: "photoSize ?q \<le> photoSize ?p"
    by (simp_all add: photo_defs js_or_defs)
  have g4: "\<forall>y \<in> set [?q]. landscape y \<longrightarrow> photoSize y \<le> photoSize ?p"
    using g3 by simp
  have e1: "selectBestPhoto (Some [?c]) = Some ?c"
    by (simp add: selectBestPhoto_def photo_defs js_or_defs)
  have e2: "landscape ?d" and e3: "photoSize ?d \<le> photoSize ?c"
    by (simp_all add: photo_defs js_or_defs)
  have e4: "\<forall>y \<in> set [?d]. landscape y \<longrightarrow> photoSize y \<le> photoSize ?c"
    using e3 by simp
  from selectBestPhoto_portrait_bound [of "[?a, ?b]" ?a ?b] h1 h2 h3 h4
  have r1: "\<not> photoSize ?b > photoSize ?a"
    by blast
  from selectBestPhoto_portrait_bound [of _ _ _ "[?p]" ?p "[?q]"] g1 g4
  have r2: "selectBestPhoto (Some ([?p] @ [?q])) = Some ?p"
    by blast
  from selectBestPhoto_portrait_bound [of _ _ _ "[?c]" ?c "[?d]"] e1 e4
  have r3: "selectBestPhoto (Some ([?c] @ [?d])) = Some ?c"
    by blast
  from h1 h2 h4 r1 g1 g2 g3 r2 e1 e2 e3 r3 show ?thesis
    by blast
qed

subsection \<open>Nearby search: zero results and fallback\<close>

text \<open>
  Claim C1 at the legacy path. The new API is unavailable and \<open>nearbySearch\<close> reports
  \<open>ZERO_RESULTS\<close>: \<open>searchNearbyRestaurants\<close> rejects with
  \<open>"Places API error: ZERO_RESULTS"\<close> instead of resolving with the empty sequence. On the
  new-API path an answer without places resolves with the empty sequence, and the
  legacy branch of \<open>searchPlacesByText\<close> resolves \<open>ZERO_RESULTS\<close> with the empty sequence.
\<close>

theorem searchNearby_legacy_zero_results_rejects:
  "nearbySearch env_zero toronto 2000 ''restaurant'' = ([], STATUS_ZERO_RESULTS) \<and>
   searchNearbyRestaurants env_zero toronto 2000 ''restaurant'' =
     ([InitializeService, NearbySearch toronto 2000 ''restaurant''],
      Rejected (Error ''Places API error: ZERO_RESULTS'')) \<and>
   searchNearbyRestaurants env_new_empty toronto 2000 ''restaurant'' =
     ([InitializeService, PlaceSearchNearby toronto 2000], Resolved []) \<and>
   searchPlacesByText env_zero ''thai'' (Some toronto) None =
     ([InitializeService, TextSearch ''thai'' (Some toronto) None], Resolved [])"
  by (simp add: nearby_defs text_defs env_defs js_or_defs Let_def)

lemma searchNearby_new_fails:
  "Place_searchNearby env = None \<or> newNearbyThrows env location radius \<Longrightarrow>
   snd (searchNearby_new env location radius) = None"
  by (auto simp: searchNearby_new_def newNearbyThrows_def split: option.splits sum.splits)

text \<open>
  The fallback in general: with the service initialised and nothing returned by the new
  branch, \<open>searchNearbyRestaurants\<close> settles as the legacy callback decides, after a
  \<open>nearbySearch\<close> with the caller's location, radius and type.
\<close>

lemma searchNearby_falls_back:
  "initializeGoogleMapsService env = Resolved () \<Longrightarrow>
   snd (searchNearby_new env location radius) = None \<Longrightarrow>
   searchNearbyRestaurants env location radius type =
     (InitializeService # fst (searchNearby_new env location radius) @
        [NearbySearch \<lparr> lat = lat location, lng = lng location \<rparr> radius type],
      snd (searchNearby_legacy env location radius type))"
  by (cases "searchNearby_new env location radius")
     (simp add: searchNearbyRestaurants_def searchNearby_legacy_def)

text \<open>
  Claim C2 where the legacy call finds nothing. The new call throws and \<open>nearbySearch\<close>
  reports \<open>ZERO_RESULTS\<close>, which is no failure of the legacy call: yet
  \<open>searchNearbyRestaurants\<close> rejects with \<open>"Places API error: ZERO_RESULTS"\<close>, while
  \<open>searchPlacesByText\<close> in the same situation resolves with the empty sequence. With the
  legacy call answering \<open>OK\<close>, the fallback resolves with the entity built from the
  legacy place; and with the legacy call denied, it rejects.
\<close>

theorem searchNearby_fallback_zero_results_rejects:
  "newNearbyThrows env_new_throws toronto 2000 \<and>
   nearbySearch env_new_throws toronto 2000 ''restaurant'' = ([], STATUS_ZERO_RESULTS) \<and>
   searchNearbyRestaurants env_new_throws toronto 2000 ''restaurant'' =
     ([InitializeService, PlaceSearchNearby toronto 2000,
       NearbySearch toronto 2000 ''restaurant''],
      Rejected (Error ''Places API error: ZERO_RESULTS'')) \<and>
   searchPlacesByText env_new_throws ''thai'' (Some toronto) (Some 2000) =
     ([InitializeService, PlaceSearchByText ''thai'' (Some (toronto, 2000)),
       TextSearch ''thai'' (Some toronto) (Some 2000)],
      Resolved []) \<and>
   searchNearbyRestaurants (env_fallback ''Pai'') toronto 2000 ''restaurant'' =
     ([InitializeService, PlaceSearchNearby toronto 2000,
       NearbySearch toronto 2000 ''restaurant''],
      Resolved
        [\<lparr> id_r = ''ChIJ-legacy-1'', name = ''Pai'', rating = 4.5, address = ''1 Main St'',
           coordinates = \<lparr> lat = 43.65, lng = - 79.38 \<rparr>, cuisine = Label ''Thai'',
           priceLevel = 2, image_r = ''/placeholder.svg'',
           distance = calculateDistance sample_math 43.6532 (- 79.3832) 43.65 (- 79.38),
           photoAttributions = Some [] \<rparr>]) \<and>
   searchNearbyRestaurants env_both_fail toronto 2000 ''restaurant'' =
     ([InitializeService, PlaceSearchNearby toronto 2000,
       NearbySearch toronto 2000 ''restaurant''],
      Rejected (Error ''Places API error: REQUEST_DENIED''))"
  by (simp add: nearby_defs text_defs env_defs js_or_defs Let_def newNearbyThrows_def
        nearbyResultToRestaurant_def legacy_place_def getBestRestaurantImage_def
        selectBestPhoto_def placeholder_def cuisineMap_get_def cuisineMap_def
        truthy_value_def)

subsection \<open>Names of the entities\<close>

lemma or_str_nonempty: "d \<noteq> [] \<Longrightarrow> or_str v d \<noteq> []"
  by (cases v) (auto simp: or_str_def truthy_str_def)

text \<open>Both new-API branches give every entity a non-empty name.\<close>

lemma nearbyPlaceToRestaurant_name:
  "nearbyPlaceToRestaurant env location place = Some r \<Longrightarrow> name r \<noteq> []"
proof -
  assume "nearbyPlaceToRestaurant env location place = Some r"
  then have "name r = or_str (Some (restaurantName place)) ''Unknown Restaurant''"
    by (cases "np_location place") (auto simp: nearbyPlaceToRestaurant_def)
  then show ?thesis by (simp add: or_str_nonempty)
qed

lemma textPlaceToRestaurant_name:
  "textPlaceToRestaurant env location place = Some r \<Longrightarrow> name r \<noteq> []"
proof -
  assume "textPlaceToRestaurant env location place = Some r"
  then have "name r = or_str (or_opt_str (np_displayName_text place) (np_name place))
                        ''Unknown Restaurant''"
    by (cases "np_location place") (auto simp: textPlaceToRestaurant_def)
  then show ?thesis by (simp add: or_str_nonempty)
qed

lemma those_map_all:
  "those (map f xs) = Some ys \<Longrightarrow> r \<in> set ys \<Longrightarrow> \<exists>x \<in> set xs. f x = Some r"
proof (induction xs arbitrary: ys)
  case Nil
  then show ?case by simp
next
  case (Cons x xs)
  then show ?case
    by (auto split: option.splits)
qed

lemma searchNearby_new_names:
  "snd (searchNearby_new env location radius) = Some rs \<Longrightarrow> r \<in> set rs \<Longrightarrow> name r \<noteq> []"
  by (auto simp: searchNearby_new_def Let_def split: option.splits sum.splits
        dest!: those_map_all dest: nearbyPlaceToRestaurant_name)

lemma searchByText_new_names:
  "snd (searchByText_new env query location radius) = Some rs \<Longrightarrow> r \<in> set rs \<Longrightarrow> name r \<noteq> []"
  by (auto simp: searchByText_new_def Let_def split: option.splits sum.splits
        dest!: those_map_all dest: textPlaceToRestaurant_name)

text \<open>
  Claim C7 at the legacy paths. \<open>nearbySearch\<close> and \<open>textSearch\<close> answer \<open>OK\<close> with a
  place whose \<open>name\<close> is the empty string: the legacy branches copy \<open>place.name\<close>, so
  the entity has an empty name. The new-API branches, given a place without a usable
  name, assign \<open>"Unknown Restaurant"\<close>.
\<close>

theorem legacy_search_empty_name:
  "gp_name (legacy_place '''') = '''' \<and>
   map_settled (map name)
     (snd (searchNearbyRestaurants (env_fallback '''') toronto 2000 ''restaurant'')) =
       Resolved [''''] \<and>
   map_settled (map name)
     (snd (searchPlacesByText (env_fallback '''') ''thai'' None None)) = Resolved [''''] \<and>
   map_settled (map name)
     (snd (searchNearbyRestaurants env_nameless toronto 2000 ''restaurant'')) =
       Resolved [''Unknown Restaurant''] \<and>
   map_settled (map name)
     (snd (searchPlacesByText env_nameless ''thai'' None None)) =
       Resolved [''Unknown Restaurant'']"
  by (simp add: nearby_defs text_defs env_defs legacy_place_def nameless_place_def
        nearbyResultToRestaurant_def textResultToRestaurant_def nearbyPlaceToRestaurant_def
        textPlaceToRestaurant_def restaurantName_def usable_name_def trim_def is_js_space_def
        js_or_defs Let_def)

subsection \<open>Photo enrichment\<close>

lemmas details_defs =
  getPlaceDetails_def session_defs getPlaceDetails_new_def
  getPlaceDetails_legacy_def fetchedPlaceToDetails_def placeResultToDetails_def emptyDg_def
  newPhotoToDetailsPhoto_def legacyPhotoToDetailsPhoto_def usable_name_def trim_def
  is_js_space_def STATUS_OK_def

lemmas image_defs =
  getBestRestaurantImage_def selectBestPhoto_def getPlacePhotoUrl_def startsWith_def
  plain_href_def placeholder_def nat_to_string.simps digit_char_def

text \<open>
  Claim C5 where the details carry an attributed photo. The restaurant has the
  placeholder image and \<open>getPlaceDetails\<close> resolves with one photo whose attributions
  name its author. \<open>enhanceRestaurantWithPhotos\<close> replaces the image by that photo's
  URL, and \<open>photoAttributions\<close> is still the input's empty list: the photo is shown
  without its attribution.
\<close>

theorem enhance_keeps_attributions:
  "image_r bare_restaurant = placeholder \<and>
   (case snd (getPlaceDetails env_details (id_r bare_restaurant)) of
      Resolved details \<Rightarrow> map_option (map attributions) (d_photos details)
    | Rejected e \<Rightarrow> None
    | Pending \<Rightarrow> None) = Some [Some [alice]] \<and>
   photoAttributions bare_restaurant = Some [] \<and>
   map_settled photoAttributions
     (snd (enhanceRestaurantWithPhotos env_details bare_restaurant)) = Resolved (Some []) \<and>
   map_settled image_r (snd (enhanceRestaurantWithPhotos env_details bare_restaurant)) =
     Resolved
       ''https://places.googleapis.com/v1/places/p1/photos/a/media?maxWidthPx=800&maxHeightPx=600&key=KEY''"
  by (simp add: enhanceRestaurantWithPhotos_def bare_restaurant_def details_defs image_defs
        env_defs photo_defs js_or_defs Let_def)

text \<open>
  What the enrichment does to the image: for a restaurant with the placeholder image
  whose details resolve with at least one photo, the image becomes
  \<open>getBestRestaurantImage\<close> of those photos; a restaurant with another image is returned
  as it is, and no SDK entry point is invoked.
\<close>

lemma enhance_replaces_image:
  "(image_r r = placeholder \<and> snd (getPlaceDetails env (id_r r)) = Resolved details \<and>
    d_photos details = Some photos \<and> photos \<noteq> [] \<longrightarrow>
      enhanceRestaurantWithPhotos env r =
        (fst (getPlaceDetails env (id_r r)),
         Resolved (r \<lparr> image_r := getBestRestaurantImage env (Some photos) \<rparr>))) \<and>
   (image_r r \<noteq> placeholder \<longrightarrow> enhanceRestaurantWithPhotos env r = ([], Resolved r))"
  by (cases "getPlaceDetails env (id_r r)") (auto simp: enhanceRestaurantWithPhotos_def)

text \<open>The outcomes of the enrichment: it never rejects.\<close>

lemma enhance_outcomes:
  "snd (enhanceRestaurantWithPhotos env r) = Pending \<or>
   snd (enhanceRestaurantWithPhotos env r) = Resolved r \<or>
   (\<exists>u. snd (enhanceRestaurantWithPhotos env r) = Resolved (r \<lparr> image_r := u \<rparr>))"
proof (cases "getPlaceDetails env (id_r r)")
  case (Pair calls outcome)
  then show ?thesis
    by (cases outcome) (auto simp: enhanceRestaurantWithPhotos_def split: option.splits)
qed

lemma initialization_settles_getPlaceDetails:
  "initializeGoogleMapsService env \<noteq> Pending \<Longrightarrow> snd (getPlaceDetails env placeId) \<noteq> Pending"
  by (cases "initializeGoogleMapsService env"; cases "getPlaceDetails_new env placeId";
      cases "getDetails env placeId")
     (auto simp: getPlaceDetails_def getPlaceDetails_legacy_def split: option.splits)

text \<open>
  Claim C10. In every outcome, the restaurant that \<open>enhanceRestaurantWithPhotos\<close>
  returns has the input's \<open>id\<close>, \<open>name\<close>, \<open>rating\<close>, \<open>address\<close>, \<open>coordinates\<close>,
  \<open>cuisine\<close>, \<open>priceLevel\<close>, \<open>distance\<close> and \<open>photoAttributions\<close>. The promise never
  rejects, and it resolves whenever the initialisation of the service settles.
\<close>

theorem enhance_frame:
  "(\<forall>r'. snd (enhanceRestaurantWithPhotos env r) = Resolved r' \<longrightarrow>
      id_r r' = id_r r \<and> name r' = name r \<and> rating r' = rating r \<and>
      address r' = address r \<and> coordinates r' = coordinates r \<and> cuisine r' = cuisine r \<and>
      priceLevel r' = priceLevel r \<and> distance r' = distance r \<and>
      photoAttributions r' = photoAttributions r) \<and>
   (\<forall>e. snd (enhanceRestaurantWithPhotos env r) \<noteq> Rejected e) \<and>
   (initializeGoogleMapsService env \<noteq> Pending \<longrightarrow>
      (\<exists>r'. snd (enhanceRestaurantWithPhotos env r) = Resolved r'))"
proof -
  have frame: "\<forall>r'. snd (enhanceRestaurantWithPhotos env r) = Resolved r' \<longrightarrow>
      id_r r' = id_r r \<and> name r' = name r \<and> rating r' = rating r \<and>
      address r' = address r \<and> coordinates r' = coordinates r \<and> cuisine r' = cuisine r \<and>
      priceLevel r' = priceLevel r \<and> distance r' = distance r \<and>
      photoAttributions r' = photoAttributions r"
  proof (intro allI impI)
    fix r'
    assume "snd (enhanceRestaurantWithPhotos env r) = Resolved r'"
    with enhance_outcomes [of env r] have "r' = r \<or> (\<exists>u. r' = r \<lparr> image_r := u \<rparr>)"
      by auto
    then show "id_r r' = id_r r \<and> name r' = name r \<and> rating r' = rating r \<and>
      address r' = address r \<and> coordinates r' = coordinates r \<and> cuisine r' = cuisine r \<and>
      priceLevel r' = priceLevel r \<and> distance r' = distance r \<and>
      photoAttributions r' = photoAttributions r"
      by auto
  qed
  have never_rejects: "\<forall>e. snd (enhanceRestaurantWithPhotos env r) \<noteq> Rejected e"
    using enhance_outcomes [of env r] by auto
  have resolves: "initializeGoogleMapsService env \<noteq> Pending \<longrightarrow>
      (\<exists>r'. snd (enhanceRestaurantWithPhotos env r) = Resolved r')"
  proof
    assume "initializeGoogleMapsService env \<noteq> Pending"
    then have "snd (getPlaceDetails env (id_r r)) \<noteq> Pending"
      by (rule initialization_settles_getPlaceDetails)
    with enhance_outcomes [of env r]
    show "\<exists>r'. snd (enhanceRestaurantWithPhotos env r) = Resolved r'"
      by (cases "getPlaceDetails env (id_r r)"; cases "snd (getPlaceDetails env (id_r r))")
         (auto simp: enhanceRestaurantWithPhotos_def split: option.splits)
  qed
  from frame never_rejects resolves show ?thesis
    by blast
qed

text \<open>
  A successful enrichment, a detail fetch that is rejected, and an initialisation that
  fails.
\<close>

theorem enhance_frame_witness:
  "snd (enhanceRestaurantWithPhotos env_details bare_restaurant) =
     Resolved (bare_restaurant \<lparr> image_r :=
       ''https://places.googleapis.com/v1/places/p1/photos/a/media?maxWidthPx=800&maxHeightPx=600&key=KEY'' \<rparr>) \<and>
   photoAttributions (bare_restaurant \<lparr> image_r :=
       ''https://places.googleapis.com/v1/places/p1/photos/a/media?maxWidthPx=800&maxHeightPx=600&key=KEY'' \<rparr>) =
     photoAttributions bare_restaurant \<and>
   snd (enhanceRestaurantWithPhotos env_zero bare_restaurant) = Resolved bare_restaurant \<and>
   initializeGoogleMapsService env_unloaded = Rejected (Error ''Google Maps API failed to load'') \<and>
   snd (enhanceRestaurantWithPhotos env_unloaded bare_restaurant) = Resolved bare_restaurant"
proof -
  let ?u = "''https://places.googleapis.com/v1/places/p1/photos/a/media?maxWidthPx=800&maxHeightPx=600&key=KEY''"
  have a: "snd (enhanceRestaurantWithPhotos env_details bare_restaurant) =
     Resolved (bare_restaurant \<lparr> image_r := ?u \<rparr>)"
    by (simp add: enhanceRestaurantWithPhotos_def bare_restaurant_def details_defs image_defs
          env_defs photo_defs js_or_defs Let_def)
  have b: "snd (enhanceRestaurantWithPhotos env_zero bare_restaurant) = Resolved bare_restaurant"
    by (simp add: enhanceRestaurantWithPhotos_def bare_restaurant_def details_defs image_defs
          env_defs)
  have i: "initializeGoogleMapsService env_unloaded =
             Rejected (Error ''Google Maps API failed to load'')"
    by (simp add: session_defs env_defs js_or_defs)
  from enhance_frame [of env_details bare_restaurant] a
  have f: "photoAttributions (bare_restaurant \<lparr> image_r := ?u \<rparr>) = photoAttributions bare_restaurant"
    by blast
  from enhance_frame [of env_unloaded bare_restaurant] i
  obtain r' where c: "snd (enhanceRestaurantWithPhotos env_unloaded bare_restaurant) = Resolved r'"
    by auto
  have "snd (enhanceRestaurantWithPhotos env_unloaded bare_restaurant) = Resolved bare_restaurant"
    by (simp add: enhanceRestaurantWithPhotos_def bare_restaurant_def details_defs image_defs
          env_defs js_or_defs)
  with a f b i show ?thesis by blast
qed

subsection \<open>Reverse geocoding\<close>

lemmas fixed_defs =
  coordinateFallback_def toFixed_def nat_to_string.simps digit_char_def Let_def

text \<open>
  Claim C6 as stated fails: without an API key the SDK never arrives,
  \<open>initializeGoogleMapsService\<close> throws before the geocoder is reached, and
  \<open>reverseGeocode\<close> rejects.
\<close>

theorem reverseGeocode_rejects_unloaded:
  "reverseGeocode env_unloaded 43.6532 (- 79.3832) =
     ([InitializeService], Rejected (Error ''Google Maps API failed to load''))"
  by (simp add: reverseGeocode_def session_defs env_defs js_or_defs)

text \<open>
  When the wait for the SDK never ends, nothing settles: neither \<open>reverseGeocode\<close> nor
  its caller in the hook.
\<close>

lemma reverseGeocode_pending:
  "initializeGoogleMapsService env = Pending \<Longrightarrow>
   snd (reverseGeocode env lat' lng') = Pending \<and>
   snd (snd (getAddressFromCoordinates env st lat' lng')) = Pending"
  by (simp add: getAddressFromCoordinates_def reverseGeocode_def)

lemma initializeGoogleMapsService_stuck: "initializeGoogleMapsService env_stuck = Pending"
  by (simp add: session_defs env_defs js_or_defs)

text \<open>
  Claim C6, amended. Once \<open>initializeGoogleMapsService\<close> has succeeded,
  \<open>reverseGeocode\<close> never rejects, and for every coordinate, under any geocoder status
  other than \<open>OK\<close> or an empty result list, it resolves with the fallback string of the
  two coordinates at four decimals. When \<open>initializeGoogleMapsService\<close> throws,
  \<open>reverseGeocode\<close> rejects with the same error, and its caller
  \<open>getAddressFromCoordinates\<close> resolves with the fallback string. For
  (43.6532, -79.3832) the fallback string is \<open>"43.6532, -79.3832"\<close>.
\<close>

theorem reverseGeocode_fallback:
  "(initializeGoogleMapsService env = Resolved () \<and>
    (snd (geocode_location env \<lparr> lat = lat', lng = lng' \<rparr>) \<noteq> STATUS_OK \<or>
     fst (geocode_location env \<lparr> lat = lat', lng = lng' \<rparr>) = []) \<longrightarrow>
      reverseGeocode env lat' lng' =
        ([InitializeService, GeocodeLocation \<lparr> lat = lat', lng = lng' \<rparr>],
         Resolved (coordinateFallback lat' lng'))) \<and>
   (initializeGoogleMapsService env = Resolved () \<longrightarrow>
      (\<exists>s. snd (reverseGeocode env lat' lng') = Resolved s)) \<and>
   (initializeGoogleMapsService env = Rejected e \<longrightarrow>
      snd (reverseGeocode env lat' lng') = Rejected e \<and>
      snd (snd (getAddressFromCoordinates env st lat' lng')) =
        Resolved (coordinateFallback lat' lng')) \<and>
   coordinateFallback 43.6532 (- 79.3832) = ''43.6532, -79.3832''"
proof (intro conjI impI)
  assume "initializeGoogleMapsService env = Resolved () \<and>
    (snd (geocode_location env \<lparr> lat = lat', lng = lng' \<rparr>) \<noteq> STATUS_OK \<or>
     fst (geocode_location env \<lparr> lat = lat', lng = lng' \<rparr>) = [])"
  then show "reverseGeocode env lat' lng' =
        ([InitializeService, GeocodeLocation \<lparr> lat = lat', lng = lng' \<rparr>],
         Resolved (coordinateFallback lat' lng'))"
    by (cases "geocode_location env \<lparr> lat = lat', lng = lng' \<rparr>")
       (auto simp: reverseGeocode_def)
next
  assume "initializeGoogleMapsService env = Resolved ()"
  then show "\<exists>s. snd (reverseGeocode env lat' lng') = Resolved s"
    by (cases "geocode_location env \<lparr> lat = lat', lng = lng' \<rparr>")
       (simp add: reverseGeocode_def)
next
  assume "initializeGoogleMapsService env = Rejected e"
  then show "snd (reverseGeocode env lat' lng') = Rejected e"
    by (simp add: reverseGeocode_def)
next
  assume "initializeGoogleMapsService env = Rejected e"
  then show "snd (snd (getAddressFromCoordinates env st lat' lng')) =
        Resolved (coordinateFallback lat' lng')"
    by (cases e) (simp add: getAddressFromCoordinates_def reverseGeocode_def)
next
  show "coordinateFallback 43.6532 (- 79.3832) = ''43.6532, -79.3832''"
    by (simp add: fixed_defs)
qed

text \<open>A geocoder error, zero results, and the missing API key.\<close>

theorem reverseGeocode_fallback_witness:
  "initializeGoogleMapsService env_geocoder_error = Resolved () \<and>
   snd (geocode_location env_geocoder_error \<lparr> lat = 43.6532, lng = - 79.3832 \<rparr>) \<noteq> STATUS_OK \<and>
   reverseGeocode env_geocoder_error 43.6532 (- 79.3832) =
     ([InitializeService, GeocodeLocation \<lparr> lat = 43.6532, lng = - 79.3832 \<rparr>],
      Resolved ''43.6532, -79.3832'') \<and>
   initializeGoogleMapsService env_zero = Resolved () \<and>
   fst (geocode_location env_zero \<lparr> lat = 43.6532, lng = - 79.3832 \<rparr>) = [] \<and>
   snd (reverseGeocode env_zero 43.6532 (- 79.3832)) = Resolved ''43.6532, -79.3832'' \<and>
   initializeGoogleMapsService env_unloaded =
     Rejected (Error ''Google Maps API failed to load'') \<and>
   snd (snd (getAddressFromCoordinates env_unloaded \<lparr> rg_loading = False, rg_error = None \<rparr>
               43.6532 (- 79.3832))) = Resolved ''43.6532, -79.3832''"
proof -
  have i1: "initializeGoogleMapsService env_geocoder_error = Resolved ()"
    and i2: "initializeGoogleMapsService env_zero = Resolved ()"
    and i3: "initializeGoogleMapsService env_unloaded =
               Rejected (Error ''Google Maps API failed to load'')"
    by (simp_all add: session_defs env_defs js_or_defs)
  have g1: "snd (geocode_location env_geocoder_error \<lparr> lat = 43.6532, lng = - 79.3832 \<rparr>) \<noteq>
              STATUS_OK"
    and g2: "fst (geocode_location env_zero \<lparr> lat = 43.6532, lng = - 79.3832 \<rparr>) = []"
    by (simp_all add: env_defs STATUS_OK_def)
  note a = reverseGeocode_fallback [of env_geocoder_error "43.6532" "- 79.3832"]
  note b = reverseGeocode_fallback [of env_zero "43.6532" "- 79.3832"]
  note c = reverseGeocode_fallback
             [of env_unloaded "43.6532" "- 79.3832" "Error ''Google Maps API failed to load''"
                 "\<lparr> rg_loading = False, rg_error = None \<rparr>"]
  from a i1 g1 have r1: "reverseGeocode env_geocoder_error 43.6532 (- 79.3832) =
     ([InitializeService, GeocodeLocation \<lparr> lat = 43.6532, lng = - 79.3832 \<rparr>],
      Resolved ''43.6532, -79.3832'')"
    by metis
  from b i2 g2 have r2: "snd (reverseGeocode env_zero 43.6532 (- 79.3832)) =
     Resolved ''43.6532, -79.3832''"
    by (metis snd_conv)
  from c i3 have r3: "snd (snd (getAddressFromCoordinates env_unloaded
       \<lparr> rg_loading = False, rg_error = None \<rparr> 43.6532 (- 79.3832))) =
     Resolved ''43.6532, -79.3832''"
    by metis
  from i1 g1 r1 i2 g2 r2 i3 r3 show ?thesis
    by blast
qed

subsection \<open>Location search\<close>

text \<open>\<open>searchLocationsByText\<close> itself has no guard: the empty query reaches the geocoder.\<close>

lemma searchLocationsByText_calls_provider:
  "searchLocationsByText env_zero '''' = ([InitializeService, GeocodeAddress ''''], Resolved [])"
  by (simp add: searchLocationsByText_def session_defs env_defs
        STATUS_OK_def STATUS_ZERO_RESULTS_def)

text \<open>
  Claim C8. \<open>searchLocations\<close> of \<open>useLocationSearch\<close>, applied to the empty or an
  all-whitespace query, sets the results to the empty sequence and invokes no SDK entry
  point.
\<close>

theorem searchLocations_blank_query:
  "trim query = [] \<Longrightarrow> searchLocations env st query = ([], st \<lparr> results := [] \<rparr>)"
  by (simp add: searchLocations_def)

theorem searchLocations_blank_query_witness:
  "trim '''' = [] \<and> searchLocations env_zero idle '''' = ([], idle \<lparr> results := [] \<rparr>) \<and>
   trim [CHR '' '', CHR 0x09, CHR '' ''] = [] \<and>
   searchLocations env_zero idle [CHR '' '', CHR 0x09, CHR '' ''] = ([], idle \<lparr> results := [] \<rparr>)"
proof -
  have h1: "trim '''' = []"
    by (simp add: trim_def)
  have h2: "trim [CHR '' '', CHR 0x09, CHR '' ''] = []"
    by (simp add: trim_def is_js_space_def)
  from searchLocations_blank_query [OF h1, of env_zero idle]
       searchLocations_blank_query [OF h2, of env_zero idle] h1 h2
  show ?thesis by blast
qed

end
